theory Spec2Isabelle
  imports Main
begin

section \<open>Values, documents and frames\<close>

text \<open>
  The exporter of \<^verbatim>\<open>main.py\<close> reads three collections, reshapes them into three
  tables and writes the tables into a template workbook. The values it moves around are
  Python objects; the model keeps the ones the code tells apart:
  \<^item> \<open>VNone\<close> is Python's \<^verbatim>\<open>None\<close>, \<open>VNaN\<close> the float NaN that pandas uses as its
    missing marker;
  \<^item> \<open>VStr\<close> and \<open>VInt\<close> are strings and integers;
  \<^item> \<open>VDict\<close> is a mapping read by key (\<^verbatim>\<open>p.get("latitude")\<close>), \<open>VObj\<close> an object read
    by attribute (\<^verbatim>\<open>getattr(p, "latitude", None)\<close>); both list their entries.
  Strings are lists of characters; the accented letters of the field names are the
  characters of their Latin-1 code points.
\<close>

datatype val =
    VNone
  | VNaN
  | VStr string
  | VInt int
  | VDict "(string \<times> val) list"
  | VObj "(string \<times> val) list"

abbreviation (input) aacute :: char where "aacute \<equiv> CHR 0xE1"
abbreviation (input) eacute :: char where "eacute \<equiv> CHR 0xE9"
abbreviation (input) iacute :: char where "iacute \<equiv> CHR 0xED"
abbreviation (input) oacute :: char where "oacute \<equiv> CHR 0xF3"
abbreviation (input) ntilde :: char where "ntilde \<equiv> CHR 0xF1"

text \<open>
  A document, a row of a frame and a Python dict are association lists. A frame is its
  column labels and its rows; a cell the row does not list holds NaN, as in a frame
  built from dicts that lack a key.
\<close>

type_synonym doc = "(string \<times> val) list"

record frame =
  columns :: "string list"
  rows :: "doc list"

definition at_col :: "doc \<Rightarrow> string \<Rightarrow> val" where
  "at_col r c = (case map_of r c of None \<Rightarrow> VNaN | Some v \<Rightarrow> v)"

text \<open>\<^verbatim>\<open>df.empty\<close>: one of the two axes has length zero.\<close>

definition empty_frame :: "frame \<Rightarrow> bool" where
  "empty_frame df = (columns df = [] \<or> rows df = [])"

text \<open>\<^verbatim>\<open>pd.notna\<close> on a scalar: \<^verbatim>\<open>None\<close> and NaN are missing, anything else is not.\<close>

definition notna :: "val \<Rightarrow> bool" where
  "notna v = (v \<noteq> VNone \<and> v \<noteq> VNaN)"

text \<open>
  Item assignment on a Python dict: an existing key keeps its place and takes the new
  value, a new key goes last. A dict literal is its entries assigned in order.
\<close>

fun dict_set :: "'k \<Rightarrow> 'v \<Rightarrow> ('k \<times> 'v) list \<Rightarrow> ('k \<times> 'v) list" where
  "dict_set k v [] = [(k, v)]"
| "dict_set k v ((k', v') # kvs) =
     (if k = k' then (k, v) # kvs else (k', v') # dict_set k v kvs)"

definition py_dict :: "('k \<times> 'v) list \<Rightarrow> ('k \<times> 'v) list" where
  "py_dict entries = foldl (\<lambda>d (k, v). dict_set k v d) [] entries"

text \<open>
  \<^verbatim>\<open>MAP.get(col_name)\<close> on a table whose values are a source field or \<^verbatim>\<open>None\<close>: a key
  that maps to \<^verbatim>\<open>None\<close> and a key that is not there both give \<^verbatim>\<open>None\<close>.
\<close>

definition map_get :: "(string \<times> string option) list \<Rightarrow> string \<Rightarrow> string option" where
  "map_get m k = (case map_of m k of Some (Some c) \<Rightarrow> Some c | _ \<Rightarrow> None)"

section \<open>Geo-point extraction\<close>

definition is_float_nan :: "val \<Rightarrow> bool" where
  "is_float_nan p = (p = VNaN)"

definition isinstance_dict :: "val \<Rightarrow> bool" where
  "isinstance_dict p = (case p of VDict _ \<Rightarrow> True | _ \<Rightarrow> False)"

text \<open>\<^verbatim>\<open>p.get(key)\<close> on a dict: the value, or \<^verbatim>\<open>None\<close> when the key is missing.\<close>

definition dict_get :: "val \<Rightarrow> string \<Rightarrow> val" where
  "dict_get p k =
     (case p of
        VDict d \<Rightarrow> (case map_of d k of None \<Rightarrow> VNone | Some v \<Rightarrow> v)
      | _ \<Rightarrow> VNone)"

text \<open>
  \<^verbatim>\<open>getattr(p, name, default)\<close>: the attribute of an object that has it, the default
  otherwise; strings, integers and dicts have no attribute of these names.
\<close>

definition getattr :: "val \<Rightarrow> string \<Rightarrow> val \<Rightarrow> val" where
  "getattr p k dflt =
     (case p of
        VObj a \<Rightarrow> (case map_of a k of None \<Rightarrow> dflt | Some v \<Rightarrow> v)
      | _ \<Rightarrow> dflt)"

definition get_lat :: "val \<Rightarrow> val" where
  "get_lat p =
     (if p = VNone \<or> is_float_nan p then VNone
      else if isinstance_dict p then dict_get p ''latitude''
      else getattr p ''latitude'' VNone)"

definition get_lon :: "val \<Rightarrow> val" where
  "get_lon p =
     (if p = VNone \<or> is_float_nan p then VNone
      else if isinstance_dict p then dict_get p ''longitude''
      else getattr p ''longitude'' VNone)"

section \<open>Station pass\<close>

definition ID_Campana :: string where
  "ID_Campana = ''ID Campa'' @ [ntilde] @ ''a''"
definition Nombre_estacion :: string where
  "Nombre_estacion = ''Nombre estaci'' @ [oacute] @ ''n''"
definition Numero_Replica :: string where
  "Numero_Replica = ''N'' @ [CHR 0xFA] @ ''mero R'' @ [eacute] @ ''plica''"
definition Latitud_decimal_central :: string where
  "Latitud_decimal_central = ''Latitud decimal central''"
definition Longitud_decimal_central :: string where
  "Longitud_decimal_central = ''Longitud decimal central''"

definition ESTACION_MAP :: "(string \<times> string option) list" where
  "ESTACION_MAP =
    [(ID_Campana, None),
     (Nombre_estacion, Some ''name''),
     (''Tipo de monitoreo'', Some ''tipoMonitoreo''),
     (Numero_Replica, None),
     (''Descripci'' @ [oacute] @ ''n EstacionReplica'', Some ''comentario''),
     (''Superficie (m2)'', Some ''tamano''),
     (Latitud_decimal_central, Some ''coordinatesPlani''),
     (Longitud_decimal_central, Some ''coordinatesPlani''),
     (''Regi'' @ [oacute] @ ''n'', Some ''region''),
     (''Provincia'', Some ''provincia''),
     (''Comuna'', Some ''comuna''),
     (''Localidad'', Some ''localidad''),
     (''Ecosistema nivel 1'', Some ''cobertura1''),
     (''Ecosistema nivel 2'', Some ''cobertura2''),
     (''estacionID'', Some ''estacionID'')]"

definition numeros_estacion :: "(string \<times> nat) list" where
  "numeros_estacion =
    [(ID_Campana, 1),
     (Nombre_estacion, 2),
     (''Tipo de monitoreo'', 3),
     (Numero_Replica, 4),
     (''Descripci'' @ [oacute] @ ''n EstacionReplica'', 5),
     (''Superficie (m2)'', 9),
     (Latitud_decimal_central, 10),
     (Longitud_decimal_central, 11),
     (''Regi'' @ [oacute] @ ''n'', 16),
     (''Provincia'', 17),
     (''Comuna'', 18),
     (''Localidad'', 19),
     (''Ecosistema nivel 1'', 20),
     (''Ecosistema nivel 2'', 21)]"

definition df_estacion_columns :: "string list" where
  "df_estacion_columns = map fst ESTACION_MAP"

text \<open>
  The value of one cell of the station table: \<open>i\<close> is the row's position, \<open>cols\<close> the
  labels of the fetched frame (\<^verbatim>\<open>col in src\<close>) and \<open>src\<close> the fetched row.
\<close>

definition estacion_cell :: "nat \<Rightarrow> string list \<Rightarrow> doc \<Rightarrow> string \<Rightarrow> val" where
  "estacion_cell i cols src col_name =
     (let col = map_get ESTACION_MAP col_name in
      if col_name = ID_Campana then VInt (int i + 1)
      else if col_name = Numero_Replica then VInt 0
      else if col_name = Latitud_decimal_central then
        (case col of
           Some c \<Rightarrow> if c \<in> set cols \<and> notna (at_col src c) then get_lat (at_col src c) else VNone
         | None \<Rightarrow> VNone)
      else if col_name = Longitud_decimal_central then
        (case col of
           Some c \<Rightarrow> if c \<in> set cols \<and> notna (at_col src c) then get_lon (at_col src c) else VNone
         | None \<Rightarrow> VNone)
      else
        (case col of
           Some c \<Rightarrow> if c \<in> set cols \<and> notna (at_col src c) then at_col src c else VNone
         | None \<Rightarrow> VNone))"

definition estacion_row :: "string list \<Rightarrow> nat \<times> doc \<Rightarrow> doc" where
  "estacion_row cols isrc =
     map (\<lambda>col_name. (col_name, estacion_cell (fst isrc) cols (snd isrc) col_name))
       df_estacion_columns"

definition estacion_rows :: "frame \<Rightarrow> doc list" where
  "estacion_rows df_estacion =
     map (estacion_row (columns df_estacion)) (enumerate 0 (rows df_estacion))"

text \<open>
  \<^verbatim>\<open>groupby(key).cumcount()\<close>: the number of earlier rows of the same group. pandas
  leaves a row whose key is missing out of every group (\<^verbatim>\<open>dropna\<close>, its default) and
  gives such a row NaN. \<open>seen\<close> holds the keys of the rows already passed.
\<close>

fun cumcount_from :: "val list \<Rightarrow> val list \<Rightarrow> val list" where
  "cumcount_from seen [] = []"
| "cumcount_from seen (k # ks) =
     (if notna k then VInt (int (count_list seen k)) else VNaN) # cumcount_from (seen @ [k]) ks"

definition cumcount :: "val list \<Rightarrow> val list" where
  "cumcount ks = cumcount_from [] ks"

text \<open>\<^verbatim>\<open>.add(1)\<close> on the counts: NaN stays NaN.\<close>

fun add1 :: "val \<Rightarrow> val" where
  "add1 (VInt n) = VInt (n + 1)"
| "add1 v = v"

text \<open>Assignment of a whole column, one value per row.\<close>

definition set_column :: "string \<Rightarrow> val list \<Rightarrow> doc list \<Rightarrow> doc list" where
  "set_column c vs rs = map (\<lambda>(r, v). dict_set c v r) (zip rs vs)"

definition numero_replica :: "doc list \<Rightarrow> doc list" where
  "numero_replica plantilla =
     (if plantilla \<noteq> [] then
        set_column Numero_Replica
          (map add1 (cumcount (map (\<lambda>r. at_col r Nombre_estacion) plantilla))) plantilla
      else plantilla)"

section \<open>Join with the replicate number\<close>

text \<open>
  \<^verbatim>\<open>astype(str)\<close> applies \<^verbatim>\<open>str\<close> to every cell: \<^verbatim>\<open>None\<close> becomes the text
  \<^verbatim>\<open>None\<close>, NaN the text \<^verbatim>\<open>nan\<close>, an integer its decimal digits. The text of a
  dict or of an object is Python's business; \<open>render\<close> stands for it.
\<close>

fun digit_char :: "nat \<Rightarrow> char" where
  "digit_char n = char_of (48 + n)"

function str_nat :: "nat \<Rightarrow> string" where
  "str_nat n = (if n < 10 then [digit_char n] else str_nat (n div 10) @ [digit_char (n mod 10)])"
  by pat_completeness auto
termination
  by (relation "measure id") auto

definition str_int :: "int \<Rightarrow> string" where
  "str_int i = (if i < 0 then ''-'' @ str_nat (nat (- i)) else str_nat (nat i))"

fun py_str :: "(val \<Rightarrow> string) \<Rightarrow> val \<Rightarrow> string" where
  "py_str render VNone = ''None''"
| "py_str render VNaN = ''nan''"
| "py_str render (VStr s) = s"
| "py_str render (VInt i) = str_int i"
| "py_str render v = render v"

definition astype_str :: "(val \<Rightarrow> string) \<Rightarrow> string \<Rightarrow> doc list \<Rightarrow> doc list" where
  "astype_str render c rs = map (\<lambda>r. dict_set c (VStr (py_str render (at_col r c))) r) rs"

text \<open>
  \<^verbatim>\<open>left.merge(right[["estacionID", "N\<dots>mero R\<dots>plica"]], on="estacionID", how="left")\<close>:
  the rows of the left frame in their order, each once per right row with the same key
  (in the right frame's order), or once with NaN when no right row has it. A column of the
  left frame that already carries the right column's label is renamed with the suffix
  \<^verbatim>\<open>_x\<close>, and the right column takes \<^verbatim>\<open>_y\<close>.
\<close>

definition merge_labels :: "string list \<Rightarrow> (string \<Rightarrow> string) \<times> string" where
  "merge_labels cols =
     (if Numero_Replica \<in> set cols
      then (\<lambda>c. if c = Numero_Replica then Numero_Replica @ ''_x'' else c, Numero_Replica @ ''_y'')
      else (\<lambda>c. c, Numero_Replica))"

definition merge_row :: "string list \<Rightarrow> doc list \<Rightarrow> doc \<Rightarrow> doc list" where
  "merge_row cols right l =
     (let (ren, lab) = merge_labels cols;
          base = map (\<lambda>c. (ren c, at_col l c)) cols;
          ms = filter (\<lambda>r. at_col r ''estacionID'' = at_col l ''estacionID'') right
      in if ms = [] then [base @ [(lab, VNaN)]]
         else map (\<lambda>r. base @ [(lab, at_col r Numero_Replica)]) ms)"

definition merge_left :: "frame \<Rightarrow> doc list \<Rightarrow> frame" where
  "merge_left left right =
     \<lparr>columns = map (fst (merge_labels (columns left))) (columns left)
                  @ [snd (merge_labels (columns left))],
      rows = concat (map (merge_row (columns left) right) (rows left))\<rparr>"

text \<open>\<^verbatim>\<open>df[label] = None\<close>: the column takes \<^verbatim>\<open>None\<close> in every row (a new label goes last).\<close>

definition assign_none :: "string \<Rightarrow> frame \<Rightarrow> frame" where
  "assign_none c df =
     \<lparr>columns = (if c \<in> set (columns df) then columns df else columns df @ [c]),
      rows = map (dict_set c VNone) (rows df)\<rparr>"

text \<open>
  The join of the source. The station table always has its \<^verbatim>\<open>estacionID\<close> column (it
  is a key of \<open>ESTACION_MAP\<close>), so the test is on the fetched records.
\<close>

definition join_replica :: "(val \<Rightarrow> string) \<Rightarrow> doc list \<Rightarrow> frame \<Rightarrow> doc list \<times> frame" where
  "join_replica render plantilla df_registro =
     (if ''estacionID'' \<in> set df_estacion_columns \<and> ''estacionID'' \<in> set (columns df_registro)
      then
        (let plantilla' = astype_str render ''estacionID'' plantilla;
             df_registro' = df_registro\<lparr>rows := astype_str render ''estacionID'' (rows df_registro)\<rparr>
         in (plantilla', merge_left df_registro' plantilla'))
      else (plantilla, assign_none Numero_Replica df_registro))"

section \<open>Record pass\<close>

definition Latitud_decimal_registro :: string where
  "Latitud_decimal_registro = ''Latitud decimal registro''"
definition Longitud_decimal_registro :: string where
  "Longitud_decimal_registro = ''Longitud decimal registro''"
definition Identificado_por :: string where
  "Identificado_por = ''Identificado por''"
definition Comentarios_de_la_Identificacion :: string where
  "Comentarios_de_la_Identificacion = ''Comentarios de la Identificaci'' @ [oacute] @ ''n''"
definition Comentarios_del_registro_biologico :: string where
  "Comentarios_del_registro_biologico = ''Comentarios del registro biol'' @ [oacute] @ ''gico''"
definition Muestreado_por :: string where
  "Muestreado_por = ''Muestreado por''"
definition ID_EstacionReplica :: string where
  "ID_EstacionReplica = ''ID EstacionReplica''"
definition AUTOCOMPLETADO_NombreCampana :: string where
  "AUTOCOMPLETADO_NombreCampana = ''AUTOCOMPLETADO NombreCampa'' @ [ntilde] @ ''a''"
definition AUTOCOMPLETADO_NombreEstacion :: string where
  "AUTOCOMPLETADO_NombreEstacion =
    ''AUTOCOMPLETADO NombreEstacion-N'' @ [CHR 0xFA] @ ''mero Replica-Tipo de monitoreo''"

definition REGISTRO_MAP :: "(string \<times> string option) list" where
  "REGISTRO_MAP =
    [(ID_Campana, None),
     (AUTOCOMPLETADO_NombreCampana, Some ''valor''),
     (ID_EstacionReplica, Some Numero_Replica),
     (AUTOCOMPLETADO_NombreEstacion, None),
     (''A'' @ [ntilde] @ ''o del evento'', Some ''registroAnoDate''),
     (''Mes del evento'', Some ''registrosMesDate''),
     (''D'' @ [iacute] @ ''a del evento'', Some ''registrosDiaDate''),
     (''Hora inicio evento (hh:mm)'', Some ''registrosHoraDate''),
     (''Protocolo de muestreo'', Some ''protocoloMuestreo''),
     (''Tama'' @ [ntilde] @ ''o de la muestra'', Some ''tamanoEst''),
     (''Unidad del tama'' @ [ntilde] @ ''o de la muestra'', Some ''unidadDeLaMuestra''),
     (''Esfuerzo de muestreo'', None),
     (''Profundidad (m)'', None),
     (''Comentarios del evento'', Some ''comentarios''),
     (''Reino'', Some ''Reino''),
     (''Filo o divisi'' @ [oacute] @ ''n'', None),
     (''Clase'', Some ''clase''),
     (''Orden'', None),
     (''Familia'', Some ''familia''),
     (''G'' @ [eacute] @ ''nero'', Some ''genero''),
     (''Subg'' @ [eacute] @ ''nero'', None),
     (''Ep'' @ [iacute] @ ''teto espec'' @ [iacute] @ ''fico'', None),
     (''Ep'' @ [iacute] @ ''teto infraespec'' @ [iacute] @ ''fico'', None),
     (''Nombre com'' @ [CHR 0xFA] @ ''n'', None),
     (''Comentarios del tax'' @ [oacute] @ ''n'', None),
     (''Estado del organismo'', Some ''estadoDelOrganismo''),
     (''Tipo de componente abi'' @ [oacute] @ ''tico'', Some ''tipoDeComponente''),
     (''Par'' @ [aacute] @ ''metro'', Some ''parametro''),
     (''Tipo de cuantificaci'' @ [oacute] @ ''n'', Some ''tipoCuantificacion''),
     (''Valor'', Some ''nInd''),
     (''Unidad de valor'', Some ''unidadDeValor''),
     (Latitud_decimal_registro, Some ''coordinatesReg''),
     (Longitud_decimal_registro, Some ''coordinatesReg''),
     (''Hora registro'', Some ''registrosHoraDate''),
     (''Condici'' @ [oacute] @ ''n reproductiva'', None),
     (''Sexo (Fauna)'', None),
     (''Etapa de vida (Fauna)'', None),
     (''Comportamiento (Fauna)'', None),
     (''H'' @ [aacute] @ ''bito de crecimiento (Flora)'', Some ''habito''),
     (''Propiedades din'' @ [aacute] @ ''micas'', Some ''valor''),
     (''Tipo de registro'', Some ''tipoDeRegistro''),
     (''C'' @ [oacute] @ ''digo individuo'', None),
     (Comentarios_del_registro_biologico, None),
     (Muestreado_por, None),
     (Identificado_por, None),
     (Comentarios_de_la_Identificacion, None),
     (''Observaciones adicionales'', None)]"

text \<open>The position table, a dict literal that names the key 43 twice.\<close>

definition numero_registro :: "(nat \<times> string) list" where
  "numero_registro = py_dict
    [(1, ID_Campana),
     (2, AUTOCOMPLETADO_NombreCampana),
     (3, ID_EstacionReplica),
     (4, AUTOCOMPLETADO_NombreEstacion),
     (5, ''A'' @ [ntilde] @ ''o del evento''),
     (6, ''Mes del evento''),
     (7, ''D'' @ [iacute] @ ''a del evento''),
     (8, ''Hora inicio evento (hh:mm)''),
     (9, ''Protocolo de muestreo''),
     (10, ''Tama'' @ [ntilde] @ ''o de la muestra''),
     (11, ''Unidad del tama'' @ [ntilde] @ ''o de la muestra''),
     (12, ''Esfuerzo de muestreo''),
     (13, ''Profundidad (m)''),
     (14, ''Comentarios del evento''),
     (15, ''Reino''),
     (16, ''Filo o divisi'' @ [oacute] @ ''n''),
     (17, ''Clase''),
     (18, ''Orden''),
     (19, ''Familia''),
     (20, ''G'' @ [eacute] @ ''nero''),
     (21, ''Subg'' @ [eacute] @ ''nero''),
     (22, ''Ep'' @ [iacute] @ ''teto espec'' @ [iacute] @ ''fico''),
     (23, ''Ep'' @ [iacute] @ ''teto infraespec'' @ [iacute] @ ''fico''),
     (24, ''Nombre com'' @ [CHR 0xFA] @ ''n''),
     (25, ''Comentarios del tax'' @ [oacute] @ ''n''),
     (26, ''Estado del organismo''),
     (27, ''Tipo de componente abi'' @ [oacute] @ ''tico''),
     (28, ''Par'' @ [aacute] @ ''metro''),
     (29, ''Tipo de cuantificaci'' @ [oacute] @ ''n''),
     (30, ''Valor''),
     (31, ''Unidad de valor''),
     (32, Latitud_decimal_registro),
     (33, Longitud_decimal_registro),
     (34, ''Hora registro''),
     (35, ''Condici'' @ [oacute] @ ''n reproductiva''),
     (36, ''Sexo (Fauna)''),
     (37, ''Etapa de vida (Fauna)''),
     (38, ''Comportamiento (Fauna)''),
     (39, ''H'' @ [aacute] @ ''bito de crecimiento (Flora)''),
     (40, ''Propiedades din'' @ [aacute] @ ''micas''),
     (41, ''Tipo de registro''),
     (42, ''C'' @ [oacute] @ ''digo individuo''),
     (43, Comentarios_del_registro_biologico),
     (43, Muestreado_por),
     (45, Identificado_por),
     (46, Comentarios_de_la_Identificacion),
     (47, ''Observaciones adicionales'')]"

definition df_registro_columns :: "string list" where
  "df_registro_columns = map fst REGISTRO_MAP"

text \<open>The fields without a source that are filled with one space.\<close>

definition space_fields :: "string list" where
  "space_fields =
    [''Esfuerzo de muestreo'', ''Profundidad (m)'', ''Filo o divisi'' @ [oacute] @ ''n'',
     ''Orden'', ''Subg'' @ [eacute] @ ''nero'',
     ''Ep'' @ [iacute] @ ''teto espec'' @ [iacute] @ ''fico'',
     ''Ep'' @ [iacute] @ ''teto infraespec'' @ [iacute] @ ''fico'',
     ''Nombre com'' @ [CHR 0xFA] @ ''n'', ''Comentarios del tax'' @ [oacute] @ ''n'',
     ''Condici'' @ [oacute] @ ''n reproductiva'', ''Sexo (Fauna)'', ''Etapa de vida (Fauna)'',
     ''Comportamiento (Fauna)'', ''C'' @ [oacute] @ ''digo individuo'',
     Comentarios_del_registro_biologico, Muestreado_por,
     Identificado_por, Comentarios_de_la_Identificacion, ''Observaciones adicionales'']"

definition registro_cell :: "string list \<Rightarrow> doc \<Rightarrow> string \<Rightarrow> val" where
  "registro_cell cols src col_name =
     (let col = map_get REGISTRO_MAP col_name in
      if col_name = ID_Campana then VInt 1
      else if col_name = Latitud_decimal_registro then
        (case col of
           Some c \<Rightarrow> if c \<in> set cols \<and> notna (at_col src c) then get_lat (at_col src c) else VNone
         | None \<Rightarrow> VNone)
      else if col_name = Longitud_decimal_registro then
        (case col of
           Some c \<Rightarrow> if c \<in> set cols \<and> notna (at_col src c) then get_lon (at_col src c) else VNone
         | None \<Rightarrow> VNone)
      else if col_name \<in> {Identificado_por, Comentarios_de_la_Identificacion} then
        VStr ''AMS Consultores''
      else
        (case col of
           None \<Rightarrow> if col_name \<in> set space_fields then VStr '' '' else VNone
         | Some c \<Rightarrow> if c \<in> set cols \<and> notna (at_col src c) then at_col src c else VNone))"

definition registro_row :: "string list \<Rightarrow> doc \<Rightarrow> doc" where
  "registro_row cols src =
     map (\<lambda>col_name. (col_name, registro_cell cols src col_name)) df_registro_columns"

definition registro_rows :: "frame \<Rightarrow> doc list" where
  "registro_rows df_registro = map (registro_row (columns df_registro)) (rows df_registro)"

section \<open>Exceptions and cell assignment\<close>

text \<open>
  The two kinds of failure the export tells apart: an \<^verbatim>\<open>HTTPException\<close> with its
  status and detail, and any other exception with its message.
\<close>

datatype exc = HTTPException nat string | Exception string

definition bind_exc :: "exc + 'a \<Rightarrow> ('a \<Rightarrow> exc + 'b) \<Rightarrow> exc + 'b" where
  "bind_exc r f = (case r of Inl e \<Rightarrow> Inl e | Inr x \<Rightarrow> f x)"

text \<open>
  The passes build their tables cell by cell with \<^verbatim>\<open>table.loc[i, col_name] = cellValue\<close>.
  pandas takes a dict on the right of such an assignment for a row to align and refuses
  it; every other value is stored. The message is the same whichever cell is the first
  to hold a dict, so the pass is the table, or this exception.
\<close>

definition loc_ok :: "doc list \<Rightarrow> bool" where
  "loc_ok rs = list_all (\<lambda>r. list_all (\<lambda>kv. \<not> isinstance_dict (snd kv)) r) rs"

definition loc_assign :: "doc list \<Rightarrow> exc + doc list" where
  "loc_assign rs =
     (if loc_ok rs then Inr rs else Inl (Exception ''Incompatible indexer with Series''))"

definition estacion_pass :: "frame \<Rightarrow> exc + doc list" where
  "estacion_pass df_estacion = loc_assign (estacion_rows df_estacion)"

definition registro_pass :: "frame \<Rightarrow> exc + doc list" where
  "registro_pass df_registro = loc_assign (registro_rows df_registro)"

section \<open>Campaign pass\<close>

definition CAMPANA_MAP :: "(string \<times> string) list" where
  "CAMPANA_MAP =
    [(''Nombre campa'' @ [ntilde] @ ''a'', ''name''),
     (''N'' @ [CHR 0xFA] @ ''mero de campa'' @ [ntilde] @ ''a'', ''ncampana''),
     (''Fecha inicio'', ''startDateCamp''),
     (''Fecha t'' @ [eacute] @ ''rmino'', ''endDateCamp'')]"

definition numeros_campana :: "(string \<times> nat) list" where
  "numeros_campana =
    [(ID_Campana, 1),
     (''Nombre campa'' @ [ntilde] @ ''a'', 2),
     (''N'' @ [CHR 0xFA] @ ''mero de campa'' @ [ntilde] @ ''a'', 3),
     (''A'' @ [ntilde] @ ''o inicio'', 4),
     (''Mes inicio'', 5),
     (''D'' @ [iacute] @ ''a inicio'', 6),
     (''A'' @ [ntilde] @ ''o t'' @ [eacute] @ ''rmino'', 7),
     (''Mes t'' @ [eacute] @ ''rmino'', 8),
     (''D'' @ [iacute] @ ''a t'' @ [eacute] @ ''rmino'', 9),
     (''Objetivo de la campa'' @ [ntilde] @ ''a'', 10),
     (''Comentarios adicionales'', 11)]"

text \<open>
  \<^verbatim>\<open>camp = df_campana.iloc[0].to_dict()\<close> and \<^verbatim>\<open>camp.get(CAMPANA_MAP[name])\<close>: the cell
  of the first row under the mapped label, \<^verbatim>\<open>None\<close> when the frame has no such column.
\<close>

definition camp_get :: "string list \<Rightarrow> doc \<Rightarrow> string \<Rightarrow> val" where
  "camp_get cols camp name =
     (case map_of CAMPANA_MAP name of
        Some c \<Rightarrow> if c \<in> set cols then at_col camp c else VNone
      | None \<Rightarrow> VNone)"

text \<open>
  \<^verbatim>\<open>pd.to_datetime(v, errors="coerce")\<close> is pandas' parser: a parameter of the model that
  gives the date's year, month and day, or nothing for a value it reads as no date.
\<close>

definition ymd :: "(int \<times> int \<times> int) option \<Rightarrow> val \<times> val \<times> val" where
  "ymd dt = (case dt of None \<Rightarrow> (VNone, VNone, VNone)
             | Some (y, m, d) \<Rightarrow> (VInt y, VInt m, VInt d))"

definition campana_row :: "(val \<Rightarrow> (int \<times> int \<times> int) option) \<Rightarrow> string list \<Rightarrow> doc \<Rightarrow> doc" where
  "campana_row to_dt cols camp =
     (let dt_ini = to_dt (camp_get cols camp ''Fecha inicio'');
          dt_fin = to_dt (camp_get cols camp (''Fecha t'' @ [eacute] @ ''rmino''));
          (anio_ini, mes_ini, dia_ini) = ymd dt_ini;
          (anio_fin, mes_fin, dia_fin) = ymd dt_fin
      in [(ID_Campana, VInt 1),
          (''Nombre campa'' @ [ntilde] @ ''a'', camp_get cols camp (''Nombre campa'' @ [ntilde] @ ''a'')),
          (''N'' @ [CHR 0xFA] @ ''mero de campa'' @ [ntilde] @ ''a'',
             camp_get cols camp (''N'' @ [CHR 0xFA] @ ''mero de campa'' @ [ntilde] @ ''a'')),
          (''A'' @ [ntilde] @ ''o inicio'', anio_ini),
          (''Mes inicio'', mes_ini),
          (''D'' @ [iacute] @ ''a inicio'', dia_ini),
          (''A'' @ [ntilde] @ ''o t'' @ [eacute] @ ''rmino'', anio_fin),
          (''Mes t'' @ [eacute] @ ''rmino'', mes_fin),
          (''D'' @ [iacute] @ ''a t'' @ [eacute] @ ''rmino'', dia_fin),
          (''Objetivo de la campa'' @ [ntilde] @ ''a'', VNone),
          (''Comentarios adicionales'', VNone)])"

section \<open>Spreadsheet writer\<close>

text \<open>
  A sheet is the cells it holds, by (row, column); the first entry for a position is the
  cell. A workbook is the three sheets of the template. \<open>VNone\<close> in a cell is a cell
  without a value.
\<close>

type_synonym sheet = "((nat \<times> nat) \<times> val) list"

record workbook =
  Campana :: sheet
  EstacionReplica :: sheet
  Ocurrencia :: sheet

text \<open>\<^verbatim>\<open>ws.max_row\<close>: the largest row that holds a cell, 1 for a sheet without cells.\<close>

definition max_row :: "sheet \<Rightarrow> nat" where
  "max_row sh = (if sh = [] then 1 else Max (set (map (\<lambda>a. fst (fst a)) sh)))"

text \<open>
  \<^verbatim>\<open>ws.delete_rows(idx, amount)\<close>: the rows \<open>idx\<close> to \<open>idx + amount - 1\<close> go, the rows
  below move up by \<open>amount\<close>.
\<close>

definition delete_rows :: "nat \<Rightarrow> nat \<Rightarrow> sheet \<Rightarrow> sheet" where
  "delete_rows idx amount sh =
     map (\<lambda>((r, c), v). ((if idx + amount \<le> r then r - amount else r, c), v))
       (filter (\<lambda>((r, c), v). r < idx \<or> idx + amount \<le> r) sh)"

text \<open>
  \<^verbatim>\<open>ws.cell(row=r, column=c, value=v)\<close>: the cell is created when the sheet has none
  there; its value is set only when \<open>v\<close> is not \<^verbatim>\<open>None\<close>; a value that is a dict or an
  object is refused. \<open>render\<close> gives the text of such a value in the message.
\<close>

definition excel_ok :: "val \<Rightarrow> bool" where
  "excel_ok v = (case v of VDict _ \<Rightarrow> False | VObj _ \<Rightarrow> False | _ \<Rightarrow> True)"

definition ws_cell :: "(val \<Rightarrow> string) \<Rightarrow> sheet \<Rightarrow> (nat \<times> nat) \<times> val \<Rightarrow> exc + sheet" where
  "ws_cell render sh a =
     (let (rc, v) = a in
      if fst rc < 1 \<or> snd rc < 1 then Inl (Exception ''Row or column values must be at least 1'')
      else
        (let sh' = (case map_of sh rc of None \<Rightarrow> (rc, VNone) # sh | Some _ \<Rightarrow> sh) in
         if v = VNone then Inr sh'
         else if excel_ok v then Inr ((rc, v) # sh')
         else Inl (Exception (''Cannot convert '' @ render v @ '' to Excel''))))"

fun write_cells :: "(val \<Rightarrow> string) \<Rightarrow> sheet \<Rightarrow> ((nat \<times> nat) \<times> val) list \<Rightarrow> exc + sheet" where
  "write_cells render sh [] = Inr sh"
| "write_cells render sh (a # as) =
     (case ws_cell render sh a of Inl e \<Rightarrow> Inl e | Inr sh' \<Rightarrow> write_cells render sh' as)"

text \<open>
  The two nested loops of each sheet, as the list of assignments they make in order:
  \<^verbatim>\<open>for r in range(start, len(table) + start)\<close>, and for each field of the position table
  \<^verbatim>\<open>ws.cell(row=r, column=col_number, value=table.loc[r - start, col_name])\<close>.
\<close>

definition row_cells :: "(string \<times> nat) list \<Rightarrow> nat \<Rightarrow> doc \<Rightarrow> ((nat \<times> nat) \<times> val) list" where
  "row_cells colmap r row = map (\<lambda>(col_name, col_number). ((r, col_number), at_col row col_name)) colmap"

definition table_cells :: "nat \<Rightarrow> (string \<times> nat) list \<Rightarrow> doc list \<Rightarrow> ((nat \<times> nat) \<times> val) list" where
  "table_cells start colmap table =
     concat (map (\<lambda>r. row_cells colmap r (table ! (r - start))) [start..<length table + start])"

text \<open>
  What a cell holds after \<^verbatim>\<open>ws.cell(..., value=v)\<close>, given what the sheet held there
  before (\<open>None\<close>: no cell): \<^verbatim>\<open>None\<close> leaves the old value, or an empty cell.
\<close>

definition cell_after :: "val option \<Rightarrow> val \<Rightarrow> val option" where
  "cell_after old v = (if v = VNone then Some (case old of None \<Rightarrow> VNone | Some x \<Rightarrow> x) else Some v)"

text \<open>
  \<^verbatim>\<open>for col_number in sorted(numero_registro.keys()): col_name = numero_registro[col_number]\<close>:
  the fields of the Occurrence sheet in ascending order of their positions.
\<close>

definition registro_colmap :: "(string \<times> nat) list" where
  "registro_colmap =
     map (\<lambda>col_number. (the (map_of numero_registro col_number), col_number))
       (sort (map fst numero_registro))"

definition clear_estacion :: "sheet \<Rightarrow> sheet" where
  "clear_estacion ws = (if max_row ws > 1 then delete_rows 2 (max_row ws - 1) ws else ws)"

definition clear_ocurrencia :: "sheet \<Rightarrow> sheet" where
  "clear_ocurrencia wo = (if max_row wo > 2 then delete_rows 3 (max_row wo - 2) wo else wo)"

record tables =
  df_campana_plantilla :: "doc list"
  df_estacion_plantilla :: "doc list"
  df_registro_plantilla :: "doc list"

definition write_workbook :: "(val \<Rightarrow> string) \<Rightarrow> workbook \<Rightarrow> tables \<Rightarrow> exc + workbook" where
  "write_workbook render wb t =
     bind_exc (write_cells render (Campana wb)
                 (table_cells 3 numeros_campana (df_campana_plantilla t))) (\<lambda>wc.
     bind_exc (write_cells render (clear_estacion (EstacionReplica wb))
                 (table_cells 2 numeros_estacion (df_estacion_plantilla t))) (\<lambda>ws.
     bind_exc (write_cells render (clear_ocurrencia (Ocurrencia wb))
                 (table_cells 3 registro_colmap (df_registro_plantilla t))) (\<lambda>wo.
     Inr \<lparr>Campana = wc, EstacionReplica = ws, Ocurrencia = wo\<rparr>)))"

section \<open>File name\<close>

text \<open>
  \<^verbatim>\<open>re.sub(r"[^\w\-]+", "-", s)\<close>: every maximal run of characters that are neither word
  characters nor hyphens becomes one hyphen. \<open>is_word\<close> is the class \<^verbatim>\<open>\w\<close> of the
  regular-expression engine; \<open>in_run\<close> says that the run's hyphen is already written.
\<close>

fun sub_runs :: "(char \<Rightarrow> bool) \<Rightarrow> bool \<Rightarrow> string \<Rightarrow> string" where
  "sub_runs is_word in_run [] = []"
| "sub_runs is_word in_run (c # cs) =
     (if is_word c \<or> c = CHR ''-'' then c # sub_runs is_word False cs
      else if in_run then sub_runs is_word True cs
      else CHR ''-'' # sub_runs is_word True cs)"

definition strip_char :: "char \<Rightarrow> string \<Rightarrow> string" where
  "strip_char x s = rev (dropWhile (\<lambda>c. c = x) (rev (dropWhile (\<lambda>c. c = x) s)))"

definition safe_filename :: "(char \<Rightarrow> bool) \<Rightarrow> string \<Rightarrow> string" where
  "safe_filename is_word s =
     (let t = strip_char (CHR ''-'') (sub_runs is_word False s) in if t = [] then ''file'' else t)"

definition out_name :: "(char \<Rightarrow> bool) \<Rightarrow> string \<Rightarrow> string \<Rightarrow> string" where
  "out_name is_word campana_id uuid4_hex =
     ''Flora_'' @ safe_filename is_word campana_id @ ''_'' @ take 6 uuid4_hex @ ''.xlsx''"

section \<open>The export\<close>

text \<open>
  What the export takes from outside: the document store (\<open>stream\<close>: the documents of a
  collection whose \<^verbatim>\<open>campanaID\<close> is the given one, each with its identifier, or the
  message of the failure), pandas' date parser, the word characters of the regular
  expressions, Python's text of a dict or an object, the template file and the 32
  hexadecimal digits of the fresh \<^verbatim>\<open>uuid4\<close>.
\<close>

record env =
  stream :: "string \<Rightarrow> string \<Rightarrow> string + (string \<times> doc) list"
  to_datetime :: "val \<Rightarrow> (int \<times> int \<times> int) option"
  is_word :: "char \<Rightarrow> bool"
  render :: "val \<Rightarrow> string"
  template_exists :: bool
  template :: workbook
  uuid4_hex :: string

text \<open>\<^verbatim>\<open>pd.DataFrame(rows)\<close>: the labels are the keys of the dicts, in the order they appear.\<close>

definition DataFrame :: "doc list \<Rightarrow> frame" where
  "DataFrame ds = \<lparr>columns = rev (remdups (rev (concat (map (map fst) ds)))), rows = ds\<rparr>"

text \<open>
  \<open>strip_tz\<close> rewrites zone-aware timestamps and leaves every other value as it is; the
  values of the model carry no zone.
\<close>

definition strip_tz :: "frame \<Rightarrow> frame" where
  "strip_tz df = df"

definition fetch_by_campana :: "env \<Rightarrow> string \<Rightarrow> string \<Rightarrow> exc + frame" where
  "fetch_by_campana e collection campana_id =
     (case stream e collection (strip_char (CHR 0x22) campana_id) of
        Inl msg \<Rightarrow> Inl (Exception msg)
      | Inr ds \<Rightarrow> Inr (strip_tz (DataFrame (map (\<lambda>(i, d). dict_set ''id'' (VStr i) d) ds))))"

definition template_name :: string where
  "template_name = ''FormatoBiodiversidadMonitoreoYLineaBase_v5.2.xlsx''"

definition template_missing_detail :: string where
  "template_missing_detail = ''No se encontr'' @ [oacute] @ '' la plantilla: '' @ template_name"

definition not_found_detail :: string where
  "not_found_detail = ''No hay documentos en 'campana' para ese campanaID.''"

text \<open>The three passes of the mapper, on the fetched frames.\<close>

definition template_mapper :: "env \<Rightarrow> frame \<Rightarrow> frame \<Rightarrow> frame \<Rightarrow> exc + tables" where
  "template_mapper e df_campana df_estacion df_registro =
     (case rows df_campana of
        [] \<Rightarrow> Inl (Exception ''single positional indexer is out-of-bounds'')
      | camp # _ \<Rightarrow>
          bind_exc (estacion_pass df_estacion) (\<lambda>plantilla0.
          let (plantilla, df_registro') =
                join_replica (render e) (numero_replica plantilla0) df_registro
          in bind_exc (registro_pass df_registro') (\<lambda>registro_plantilla.
             Inr \<lparr>df_campana_plantilla = [campana_row (to_datetime e) (columns df_campana) camp],
                  df_estacion_plantilla = plantilla,
                  df_registro_plantilla = registro_plantilla\<rparr>)))"

text \<open>
  The export after the three fetches. The result is the path of the saved file and the
  workbook saved there.
\<close>

definition export_frames :: "env \<Rightarrow> string \<Rightarrow> frame \<Rightarrow> frame \<Rightarrow> frame \<Rightarrow> exc + string \<times> workbook" where
  "export_frames e campana_id df_campana df_estacion df_registro =
     (if empty_frame df_campana then Inl (HTTPException 404 not_found_detail)
      else
        bind_exc (template_mapper e df_campana df_estacion df_registro) (\<lambda>t.
        if \<not> template_exists e then
          Inl (HTTPException 500 template_missing_detail)
        else
          bind_exc (write_workbook (render e) (template e) t) (\<lambda>wb.
          Inr (''/tmp/downloads/'' @ out_name (is_word e) campana_id (uuid4_hex e), wb))))"

definition generar_excel_fauna_like :: "env \<Rightarrow> string \<Rightarrow> exc + string \<times> workbook" where
  "generar_excel_fauna_like e campana_id =
     bind_exc (fetch_by_campana e ''campana'' campana_id) (\<lambda>df_campana.
     bind_exc (fetch_by_campana e ''estacion'' campana_id) (\<lambda>df_estacion.
     bind_exc (fetch_by_campana e ''registro'' campana_id) (\<lambda>df_registro.
     export_frames e campana_id df_campana df_estacion df_registro)))"

text \<open>
  The endpoint. \<^verbatim>\<open>out_path.name\<close> is the text after the last slash of the path;
  \<^verbatim>\<open>request.url_for("download_file", fname=...)\<close> is the request's base URL followed by
  the route's path. The response is a status with its detail, or the JSON object.
\<close>

definition path_name :: "string \<Rightarrow> string" where
  "path_name p = rev (takeWhile (\<lambda>c. c \<noteq> CHR ''/'') (rev p))"

definition url_for_download :: "string \<Rightarrow> string \<Rightarrow> string" where
  "url_for_download base_url fname = base_url @ ''download/'' @ fname"

definition export_excel :: "env \<Rightarrow> string \<Rightarrow> string \<Rightarrow> nat \<times> string + (string \<times> string) list" where
  "export_excel e base_url campana_id =
     (case generar_excel_fauna_like e campana_id of
        Inl (HTTPException status detail) \<Rightarrow> Inl (status, detail)
      | Inl (Exception msg) \<Rightarrow> Inl (500, ''Error generando Excel: '' @ msg)
      | Inr (out_path, wb) \<Rightarrow>
          Inr [(''download_url'', url_for_download base_url (path_name out_path))])"

text \<open>The ASCII characters of the class \<^verbatim>\<open>\w\<close>, for the examples.\<close>

definition ascii_word :: "char \<Rightarrow> bool" where
  "ascii_word c =
     (c \<in> set (''abcdefghijklmnopqrstuvwxyz'' @ ''ABCDEFGHIJKLMNOPQRSTUVWXYZ'' @ ''0123456789_''))"

section \<open>An example deployment\<close>

text \<open>
  A store with one campaign \<^verbatim>\<open>c1\<close> that has neither stations nor records, a store that
  cannot be reached, and an environment around either: a template with old data rows,
  ASCII word characters, a fixed uuid.
\<close>

definition one_campaign :: "string \<Rightarrow> string \<Rightarrow> string + (string \<times> doc) list" where
  "one_campaign collection campana_id =
     (if collection = ''campana'' \<and> campana_id = ''c1''
      then Inr [(''doc1'', [(''campanaID'', VStr ''c1''), (''name'', VStr ''Primavera'')])]
      else Inr [])"

definition store_down :: "string \<Rightarrow> string \<Rightarrow> string + (string \<times> doc) list" where
  "store_down collection campana_id = Inl ''connection lost''"

definition example_env :: "(string \<Rightarrow> string \<Rightarrow> string + (string \<times> doc) list) \<Rightarrow> bool \<Rightarrow> env" where
  "example_env store has_template =
     \<lparr>stream = store,
      to_datetime = (\<lambda>v. None),
      is_word = ascii_word,
      render = (\<lambda>v. []),
      template_exists = has_template,
      template =
        \<lparr>Campana = [((1, 1), VStr ''ID'')],
         EstacionReplica = [((1, 1), VStr ''ID''), ((2, 1), VInt 1), ((2, 2), VStr ''old station'')],
         Ocurrencia = [((2, 1), VStr ''ID''), ((3, 1), VInt 1), ((4, 1), VInt 1)]\<rparr>,
      uuid4_hex = ''3f2a9c0b1d4e4a6f8b7c2d1e0f9a8b7c''\<rparr>"

section \<open>The claims' own words\<close>

text \<open>
  The replicate number as the specification words it: one plus the number of earlier
  rows of the table whose station display name equals this row's.
\<close>

definition claimed_replica :: "doc list \<Rightarrow> nat \<Rightarrow> val" where
  "claimed_replica table i =
     VInt (1 + int (length (filter
       (\<lambda>j. at_col (table ! j) Nombre_estacion = at_col (table ! i) Nombre_estacion) [0..<i])))"

text \<open>
  The Station rows whose station identifier, compared as a string, equals the Record's
  own; and a value as the Record pass copies it: a missing one becomes \<^verbatim>\<open>None\<close>.
\<close>

definition matching_stations :: "(val \<Rightarrow> string) \<Rightarrow> doc list \<Rightarrow> doc \<Rightarrow> doc list" where
  "matching_stations rdr plantilla l =
     filter (\<lambda>s. py_str rdr (at_col s ''estacionID'') = py_str rdr (at_col l ''estacionID''))
       plantilla"


section \<open>Properties\<close>

text \<open>The field names that the properties below mention.\<close>

lemmas field_names =
  ID_Campana_def
  Nombre_estacion_def
  Numero_Replica_def
  Latitud_decimal_central_def
  Longitud_decimal_central_def
  Latitud_decimal_registro_def
  Longitud_decimal_registro_def
  Identificado_por_def
  Comentarios_de_la_Identificacion_def
  Comentarios_del_registro_biologico_def
  Muestreado_por_def
  ID_EstacionReplica_def
  AUTOCOMPLETADO_NombreCampana_def
  AUTOCOMPLETADO_NombreEstacion_def

lemma at_col_estacion_row:
  "col_name \<in> set df_estacion_columns \<Longrightarrow>
   at_col (estacion_row cols (i, src)) col_name = estacion_cell i cols src col_name"
  by (simp add: at_col_def estacion_row_def map_of_map_restrict)

subsection \<open>Geo-point extraction\<close>

lemma map_get_est_lat: "map_get ESTACION_MAP Latitud_decimal_central = Some ''coordinatesPlani''"
  by (simp add: map_get_def ESTACION_MAP_def field_names)
lemma map_get_est_lon: "map_get ESTACION_MAP Longitud_decimal_central = Some ''coordinatesPlani''"
  by (simp add: map_get_def ESTACION_MAP_def field_names)
lemma map_get_reg_lat: "map_get REGISTRO_MAP Latitud_decimal_registro = Some ''coordinatesReg''"
  by (simp add: map_get_def REGISTRO_MAP_def field_names)
lemma map_get_reg_lon: "map_get REGISTRO_MAP Longitud_decimal_registro = Some ''coordinatesReg''"
  by (simp add: map_get_def REGISTRO_MAP_def field_names)

lemma estacion_cell_lat:
  "estacion_cell i cols src Latitud_decimal_central =
     (if ''coordinatesPlani'' \<in> set cols \<and> notna (at_col src ''coordinatesPlani'')
      then get_lat (at_col src ''coordinatesPlani'') else VNone)"
  unfolding estacion_cell_def map_get_est_lat by (simp add: field_names)

lemma estacion_cell_lon:
  "estacion_cell i cols src Longitud_decimal_central =
     (if ''coordinatesPlani'' \<in> set cols \<and> notna (at_col src ''coordinatesPlani'')
      then get_lon (at_col src ''coordinatesPlani'') else VNone)"
  unfolding estacion_cell_def map_get_est_lon by (simp add: field_names)

lemma registro_cell_lat:
  "registro_cell cols src Latitud_decimal_registro =
     (if ''coordinatesReg'' \<in> set cols \<and> notna (at_col src ''coordinatesReg'')
      then get_lat (at_col src ''coordinatesReg'') else VNone)"
  unfolding registro_cell_def map_get_reg_lat by (simp add: field_names)

lemma registro_cell_lon:
  "registro_cell cols src Longitud_decimal_registro =
     (if ''coordinatesReg'' \<in> set cols \<and> notna (at_col src ''coordinatesReg'')
      then get_lon (at_col src ''coordinatesReg'') else VNone)"
  unfolding registro_cell_def map_get_reg_lon by (simp add: field_names)

lemma get_lat_cases:
  "get_lat VNone = VNone" "get_lat VNaN = VNone" "get_lat (VStr s) = VNone" "get_lat (VInt n) = VNone"
  "get_lat (VDict kv) = (case map_of kv ''latitude'' of None \<Rightarrow> VNone | Some v \<Rightarrow> v)"
  "get_lat (VObj kv) = (case map_of kv ''latitude'' of None \<Rightarrow> VNone | Some v \<Rightarrow> v)"
  by (simp_all add: get_lat_def is_float_nan_def isinstance_dict_def dict_get_def getattr_def)

lemma get_lon_cases:
  "get_lon VNone = VNone" "get_lon VNaN = VNone" "get_lon (VStr s) = VNone" "get_lon (VInt n) = VNone"
  "get_lon (VDict kv) = (case map_of kv ''longitude'' of None \<Rightarrow> VNone | Some v \<Rightarrow> v)"
  "get_lon (VObj kv) = (case map_of kv ''longitude'' of None \<Rightarrow> VNone | Some v \<Rightarrow> v)"
  by (simp_all add: get_lon_def is_float_nan_def isinstance_dict_def dict_get_def getattr_def)

text \<open>
  C6. Geo-point extraction gives the same latitude and longitude for a point read by key
  and a point read by attribute with the same entries; a point that is \<^verbatim>\<open>None\<close>, NaN
  or not there at all gives the pair of absent values. \<open>get_lat\<close> and \<open>get_lon\<close> return
  a value on every input, and so do the cells of the two passes that call them.
\<close>

theorem geo_point_extraction:
  "(get_lat (VDict kv), get_lon (VDict kv)) = (get_lat (VObj kv), get_lon (VObj kv))
   \<and> (get_lat VNone, get_lon VNone) = (VNone, VNone)
   \<and> (get_lat VNaN, get_lon VNaN) = (VNone, VNone)
   \<and> (at_col src ''coordinatesPlani'' = VDict kv \<and> at_col src' ''coordinatesPlani'' = VObj kv \<longrightarrow>
        estacion_cell i cols src Latitud_decimal_central = estacion_cell i cols src' Latitud_decimal_central
      \<and> estacion_cell i cols src Longitud_decimal_central = estacion_cell i cols src' Longitud_decimal_central)
   \<and> (at_col src ''coordinatesReg'' = VDict kv \<and> at_col src' ''coordinatesReg'' = VObj kv \<longrightarrow>
        registro_cell cols src Latitud_decimal_registro = registro_cell cols src' Latitud_decimal_registro
      \<and> registro_cell cols src Longitud_decimal_registro = registro_cell cols src' Longitud_decimal_registro)
   \<and> (''coordinatesPlani'' \<notin> set cols \<or> at_col src ''coordinatesPlani'' \<in> {VNone, VNaN} \<longrightarrow>
        estacion_cell i cols src Latitud_decimal_central = VNone
      \<and> estacion_cell i cols src Longitud_decimal_central = VNone)
   \<and> (''coordinatesReg'' \<notin> set cols \<or> at_col src ''coordinatesReg'' \<in> {VNone, VNaN} \<longrightarrow>
        registro_cell cols src Latitud_decimal_registro = VNone
      \<and> registro_cell cols src Longitud_decimal_registro = VNone)"
  by (auto simp: estacion_cell_lat estacion_cell_lon registro_cell_lat registro_cell_lon
      get_lat_cases get_lon_cases notna_def)

theorem geo_point_extraction_witness:
  "(get_lat (VDict [(''latitude'', VInt (-33)), (''longitude'', VInt (-70))]),
    get_lon (VDict [(''latitude'', VInt (-33)), (''longitude'', VInt (-70))])) = (VInt (-33), VInt (-70))
   \<and> (get_lat (VObj [(''latitude'', VInt (-33)), (''longitude'', VInt (-70))]),
    get_lon (VObj [(''latitude'', VInt (-33)), (''longitude'', VInt (-70))])) = (VInt (-33), VInt (-70))
   \<and> estacion_cell 0 [''name'', ''coordinatesPlani'']
         [(''name'', VStr ''A''), (''coordinatesPlani'', VDict [(''latitude'', VInt (-33)), (''longitude'', VInt (-70))])]
         Latitud_decimal_central
     = estacion_cell 0 [''name'', ''coordinatesPlani'']
         [(''name'', VStr ''A''), (''coordinatesPlani'', VObj [(''latitude'', VInt (-33)), (''longitude'', VInt (-70))])]
         Latitud_decimal_central
   \<and> estacion_cell 0 [''name''] [(''name'', VStr ''A'')] Latitud_decimal_central = VNone
   \<and> registro_cell [''coordinatesReg''] [(''coordinatesReg'', VNone)] Longitud_decimal_registro = VNone"
  using geo_point_extraction [of "[(''latitude'', VInt (-33)), (''longitude'', VInt (-70))]"
      "[(''name'', VStr ''A''), (''coordinatesPlani'', VDict [(''latitude'', VInt (-33)), (''longitude'', VInt (-70))])]"
      "[(''name'', VStr ''A''), (''coordinatesPlani'', VObj [(''latitude'', VInt (-33)), (''longitude'', VInt (-70))])]"
      0 "[''name'', ''coordinatesPlani'']"]
    geo_point_extraction [of "[]" "[(''name'', VStr ''A'')]" "[]" 0 "[''name'']"]
    geo_point_extraction [of "[]" "[(''coordinatesReg'', VNone)]" "[]" 0 "[''coordinatesReg'']"]
  by (simp add: get_lat_cases get_lon_cases at_col_def)

subsection \<open>Replicate numbers\<close>

lemma at_col_dict_set_same: "at_col (dict_set c v r) c = v"
  by (induction r) (auto simp: at_col_def)

lemma at_col_dict_set_other: "c' \<noteq> c \<Longrightarrow> at_col (dict_set c v r) c' = at_col r c'"
  by (induction r) (auto simp: at_col_def)

lemma length_cumcount_from: "length (cumcount_from seen ks) = length ks"
  by (induction ks arbitrary: seen) auto

lemma nth_cumcount_from:
  "i < length ks \<Longrightarrow>
   cumcount_from seen ks ! i =
     (if notna (ks ! i) then VInt (int (count_list (seen @ take i ks) (ks ! i))) else VNaN)"
proof (induction ks arbitrary: seen i)
  case Nil
  then show ?case by simp
next
  case (Cons k ks)
  show ?case
  proof (cases i)
    case 0
    then show ?thesis by simp
  next
    case (Suc j)
    with Cons.prems have "j < length ks" by simp
    from Cons.IH [OF this, of "seen @ [k]"] Suc show ?thesis by simp
  qed
qed

lemma take_as_map_nth: "i \<le> length xs \<Longrightarrow> take i xs = map ((!) xs) [0..<i]"
  by (simp add: list_eq_iff_nth_eq)

lemma count_list_take:
  assumes le: "i \<le> length xs"
  shows "count_list (take i xs) x = length (filter (\<lambda>j. xs ! j = x) [0..<i])"
proof -
  have "count_list (take i xs) x = length (filter ((=) x) (take i xs))"
    by (rule count_list_eq_length_filter)
  also have "\<dots> = length (filter ((=) x) (map ((!) xs) [0..<i]))"
    by (simp only: take_as_map_nth [OF le])
  also have "\<dots> = length (filter (\<lambda>j. xs ! j = x) [0..<i])"
    by (simp only: filter_map length_map comp_def eq_commute [of x])
  finally show ?thesis .
qed

lemma length_set_column: "length vs = length rs \<Longrightarrow> length (set_column c vs rs) = length rs"
  by (simp add: set_column_def)

lemma nth_set_column:
  "length vs = length rs \<Longrightarrow> i < length rs \<Longrightarrow> set_column c vs rs ! i = dict_set c (vs ! i) (rs ! i)"
  by (simp add: set_column_def)

lemma length_numero_replica: "length (numero_replica pl) = length pl"
  by (simp add: numero_replica_def set_column_def cumcount_def length_cumcount_from)

lemma nth_numero_replica:
  assumes "i < length pl"
  shows "numero_replica pl ! i =
     dict_set Numero_Replica
       (add1 (cumcount (map (\<lambda>r. at_col r Nombre_estacion) pl) ! i)) (pl ! i)"
proof -
  from assms have "pl \<noteq> []" by auto
  then show ?thesis using assms
    by (simp add: numero_replica_def nth_set_column cumcount_def length_cumcount_from)
qed

lemma replica_distinct:
  "ID_Campana \<noteq> Numero_Replica" "Nombre_estacion \<noteq> Numero_Replica"
  "''estacionID'' \<noteq> Numero_Replica"
  by (simp_all add: field_names)

lemma nombre_numero_replica:
  "i < length pl \<Longrightarrow> at_col (numero_replica pl ! i) Nombre_estacion = at_col (pl ! i) Nombre_estacion"
  by (simp add: nth_numero_replica at_col_dict_set_other replica_distinct)

lemma other_numero_replica:
  "i < length pl \<Longrightarrow> c \<noteq> Numero_Replica \<Longrightarrow> at_col (numero_replica pl ! i) c = at_col (pl ! i) c"
  by (simp add: nth_numero_replica at_col_dict_set_other)

lemma replica_numero_replica:
  assumes "i < length pl"
  shows "at_col (numero_replica pl ! i) Numero_Replica =
     (if notna (at_col (pl ! i) Nombre_estacion)
      then claimed_replica (numero_replica pl) i else VNaN)"
proof -
  let ?names = "map (\<lambda>r. at_col r Nombre_estacion) pl"
  have n: "?names ! i = at_col (pl ! i) Nombre_estacion" using assms by simp
  have cc: "cumcount ?names ! i =
      (if notna (?names ! i) then VInt (int (count_list (take i ?names) (?names ! i))) else VNaN)"
    using assms by (simp add: cumcount_def nth_cumcount_from)
  have cnt: "count_list (take i ?names) (?names ! i)
      = length (filter (\<lambda>j. ?names ! j = ?names ! i) [0..<i])"
    using assms by (intro count_list_take) simp
  have flt: "filter (\<lambda>j. ?names ! j = ?names ! i) [0..<i]
      = filter (\<lambda>j. at_col (numero_replica pl ! j) Nombre_estacion
                    = at_col (numero_replica pl ! i) Nombre_estacion) [0..<i]"
  proof (rule filter_cong [OF refl])
    fix j assume "j \<in> set [0..<i]"
    then have j: "j < length pl" using assms by simp
    show "(?names ! j = ?names ! i) =
          (at_col (numero_replica pl ! j) Nombre_estacion
             = at_col (numero_replica pl ! i) Nombre_estacion)"
      using nombre_numero_replica [OF j] nombre_numero_replica [OF assms] j assms by simp
  qed
  have lhs: "at_col (numero_replica pl ! i) Numero_Replica = add1 (cumcount ?names ! i)"
    by (simp only: nth_numero_replica [OF assms] at_col_dict_set_same)
  have mid: "add1 (cumcount ?names ! i) =
      (if notna (?names ! i)
       then VInt (1 + int (length (filter (\<lambda>j. ?names ! j = ?names ! i) [0..<i]))) else VNaN)"
    by (simp only: cc cnt add1.simps if_distrib [of add1] add.commute)
  have rhs: "claimed_replica (numero_replica pl) i =
      VInt (1 + int (length (filter (\<lambda>j. ?names ! j = ?names ! i) [0..<i])))"
    by (simp only: claimed_replica_def flt)
  show ?thesis
    by (simp only: lhs mid rhs n)
qed



lemma length_estacion_rows: "length (estacion_rows df) = length (rows df)"
  by (simp add: estacion_rows_def)

lemma nth_estacion_rows:
  "i < length (rows df) \<Longrightarrow>
   estacion_rows df ! i = estacion_row (columns df) (i, rows df ! i)"
  by (simp add: estacion_rows_def nth_enumerate_eq)

lemma estacion_cell_id: "estacion_cell i cols src ID_Campana = VInt (int i + 1)"
  by (simp add: estacion_cell_def field_names)

lemma estacion_cell_nombre:
  "estacion_cell i cols src Nombre_estacion =
     (if ''name'' \<in> set cols \<and> notna (at_col src ''name'') then at_col src ''name'' else VNone)"
  by (simp add: estacion_cell_def map_get_def ESTACION_MAP_def field_names)

lemma estacion_columns_mem:
  "ID_Campana \<in> set df_estacion_columns" "Nombre_estacion \<in> set df_estacion_columns"
  "''estacionID'' \<in> set df_estacion_columns"
  by (simp_all add: df_estacion_columns_def ESTACION_MAP_def)

text \<open>
  C1, as amended. The station pass keeps the fetch order: row \<open>i\<close> of the table is built
  from the \<open>i\<close>-th fetched station, carries that station's display name and the running
  number \<open>i + 1\<close>. A row that has a display name gets as its replicate number one plus
  the number of earlier rows with the same display name; a row without a display name is
  in no group and gets NaN. For the names A, B, A the numbers are 1, 1, 2.
\<close>

theorem replicate_number:
  "length (numero_replica (estacion_rows df)) = length (rows df)
   \<and> (\<forall>i < length (rows df).
        at_col (numero_replica (estacion_rows df) ! i) ID_Campana = VInt (int i + 1)
      \<and> at_col (numero_replica (estacion_rows df) ! i) Nombre_estacion =
          (if ''name'' \<in> set (columns df) \<and> notna (at_col (rows df ! i) ''name'')
           then at_col (rows df ! i) ''name'' else VNone)
      \<and> at_col (numero_replica (estacion_rows df) ! i) Numero_Replica =
          (if notna (at_col (numero_replica (estacion_rows df) ! i) Nombre_estacion)
           then claimed_replica (numero_replica (estacion_rows df)) i else VNaN))
   \<and> map (\<lambda>r. at_col r Numero_Replica)
        (numero_replica (estacion_rows
           \<lparr>columns = [''name''],
            rows = [[(''name'', VStr ''A'')], [(''name'', VStr ''B'')], [(''name'', VStr ''A'')]]\<rparr>))
      = [VInt 1, VInt 1, VInt 2]"
proof (intro conjI allI impI)
  show "length (numero_replica (estacion_rows df)) = length (rows df)"
    by (simp add: length_numero_replica length_estacion_rows)
next
  fix i assume i: "i < length (rows df)"
  then have i': "i < length (estacion_rows df)" by (simp add: length_estacion_rows)
  show "at_col (numero_replica (estacion_rows df) ! i) ID_Campana = VInt (int i + 1)"
    using other_numero_replica [OF i' replica_distinct(1)]
    by (simp add: nth_estacion_rows [OF i] at_col_estacion_row estacion_columns_mem estacion_cell_id)
  show nm: "at_col (numero_replica (estacion_rows df) ! i) Nombre_estacion =
          (if ''name'' \<in> set (columns df) \<and> notna (at_col (rows df ! i) ''name'')
           then at_col (rows df ! i) ''name'' else VNone)"
    using nombre_numero_replica [OF i']
    by (simp add: nth_estacion_rows [OF i] at_col_estacion_row estacion_columns_mem
        estacion_cell_nombre)
  show "at_col (numero_replica (estacion_rows df) ! i) Numero_Replica =
          (if notna (at_col (numero_replica (estacion_rows df) ! i) Nombre_estacion)
           then claimed_replica (numero_replica (estacion_rows df)) i else VNaN)"
    using replica_numero_replica [OF i'] nombre_numero_replica [OF i'] by simp
next
  show "map (\<lambda>r. at_col r Numero_Replica)
        (numero_replica (estacion_rows
           \<lparr>columns = [''name''],
            rows = [[(''name'', VStr ''A'')], [(''name'', VStr ''B'')], [(''name'', VStr ''A'')]]\<rparr>))
      = [VInt 1, VInt 1, VInt 2]"
    by code_simp
qed

theorem replicate_number_witness:
  "at_col (numero_replica (estacion_rows
       \<lparr>columns = [''name''],
        rows = [[(''name'', VStr ''A'')], [(''name'', VStr ''B'')], [(''name'', VStr ''A'')]]\<rparr>) ! 2)
     Numero_Replica = VInt 2
   \<and> at_col (numero_replica (estacion_rows
       \<lparr>columns = [''name''],
        rows = [[(''name'', VStr ''A'')], [(''name'', VStr ''B'')], [(''name'', VStr ''A'')]]\<rparr>) ! 2)
     ID_Campana = VInt 3"
proof -
  let ?df = "\<lparr>columns = [''name''],
        rows = [[(''name'', VStr ''A'')], [(''name'', VStr ''B'')], [(''name'', VStr ''A'')]]\<rparr>"
  let ?out = "numero_replica (estacion_rows ?df)"
  have named: "notna (at_col (?out ! 2) Nombre_estacion)" by code_simp
  have claimed: "claimed_replica ?out 2 = VInt 2" by code_simp
  have "2 < length (rows ?df)" by simp
  with replicate_number [of ?df] have
    "at_col (?out ! 2) ID_Campana = VInt (int 2 + 1)"
    "at_col (?out ! 2) Numero_Replica =
       (if notna (at_col (?out ! 2) Nombre_estacion) then claimed_replica ?out 2 else VNaN)"
    by blast+
  with named claimed show ?thesis by simp
qed

text \<open>
  The claim as stated fails for a station without a display name: its replicate number
  is NaN, and one plus the number of earlier rows of the same name is 1.
\<close>

theorem replicate_number_unnamed_station:
  "at_col (numero_replica (estacion_rows
       \<lparr>columns = [''id''], rows = [[(''id'', VStr ''s1'')]]\<rparr>) ! 0) Numero_Replica = VNaN
   \<and> claimed_replica (numero_replica (estacion_rows
       \<lparr>columns = [''id''], rows = [[(''id'', VStr ''s1'')]]\<rparr>)) 0 = VInt 1
   \<and> at_col (numero_replica (estacion_rows
       \<lparr>columns = [''id''], rows = [[(''id'', VStr ''s1'')]]\<rparr>) ! 0) Numero_Replica
     \<noteq> claimed_replica (numero_replica (estacion_rows
       \<lparr>columns = [''id''], rows = [[(''id'', VStr ''s1'')]]\<rparr>)) 0"
  by code_simp

subsection \<open>The join and the Record pass\<close>

lemma at_col_registro_row:
  "col_name \<in> set df_registro_columns \<Longrightarrow>
   at_col (registro_row cols src) col_name = registro_cell cols src col_name"
  by (simp add: at_col_def registro_row_def map_of_map_restrict)



lemma registro_columns_mem:
  "ID_EstacionReplica \<in> set df_registro_columns" "Identificado_por \<in> set df_registro_columns"
  "Comentarios_de_la_Identificacion \<in> set df_registro_columns"
  "Muestreado_por \<in> set df_registro_columns"
  by (simp_all add: df_registro_columns_def REGISTRO_MAP_def field_names)



lemma at_col_astype_same:
  "at_col (dict_set c (VStr (py_str rdr (at_col r c))) r) c = VStr (py_str rdr (at_col r c))"
  by (rule at_col_dict_set_same)


lemma filter_astype:
  "filter (\<lambda>r. at_col r ''estacionID'' = VStr (py_str rdr (at_col l ''estacionID'')))
      (astype_str rdr ''estacionID'' plantilla)
   = astype_str rdr ''estacionID'' (matching_stations rdr plantilla l)"
  by (induction plantilla)
     (auto simp: astype_str_def matching_stations_def at_col_dict_set_same)



lemma join_replica_else:
  "''estacionID'' \<notin> set (columns df_registro) \<Longrightarrow>
   snd (join_replica rdr plantilla df_registro) = assign_none Numero_Replica df_registro"
  by (simp add: join_replica_def)

lemma join_replica_merge:
  "''estacionID'' \<in> set (columns df_registro) \<Longrightarrow>
   snd (join_replica rdr plantilla df_registro) =
     merge_left (df_registro\<lparr>rows := astype_str rdr ''estacionID'' (rows df_registro)\<rparr>)
       (astype_str rdr ''estacionID'' plantilla)"
  by (simp add: join_replica_def Let_def estacion_columns_mem)






lemma length_merge_row:
  "length (merge_row cols right l) =
     max 1 (length (filter (\<lambda>r. at_col r ''estacionID'' = at_col l ''estacionID'') right))"
  by (cases "filter (\<lambda>r. at_col r ''estacionID'' = at_col l ''estacionID'') right")
     (simp_all add: merge_row_def Let_def split_def)

lemma length_merge_row_astype:
  "length (merge_row cols (astype_str rdr ''estacionID'' plantilla)
      (dict_set ''estacionID'' (VStr (py_str rdr (at_col l ''estacionID''))) l))
   = max 1 (length (matching_stations rdr plantilla l))"
  unfolding length_merge_row at_col_dict_set_same filter_astype
  by (simp add: astype_str_def)

lemma length_join_rows:
  "length (registro_rows (snd (join_replica rdr plantilla df_registro))) =
     (if ''estacionID'' \<in> set (columns df_registro)
      then sum_list (map (\<lambda>l. max 1 (length (matching_stations rdr plantilla l))) (rows df_registro))
      else length (rows df_registro))"
proof (cases "''estacionID'' \<in> set (columns df_registro)")
  case True
  show ?thesis
    unfolding join_replica_merge [OF True]
    by (simp add: registro_rows_def merge_left_def length_concat comp_def
        astype_str_def [of rdr "''estacionID''" "rows df_registro"] length_merge_row_astype True)
next
  case False
  show ?thesis
    unfolding join_replica_else [OF False]
    by (simp add: registro_rows_def assign_none_def False)
qed





subsection \<open>Writing a table into a sheet\<close>

lemma ws_cell_lookup:
  assumes "ws_cell rdr sh (p, v) = Inr sh'"
  shows "map_of sh' q = (if q = p then cell_after (map_of sh p) v else map_of sh q)"
  using assms
  by (auto simp: ws_cell_def cell_after_def Let_def split: if_splits option.splits)

lemma ws_cell_ok:
  "1 \<le> fst p \<Longrightarrow> 1 \<le> snd p \<Longrightarrow> v = VNone \<or> excel_ok v \<Longrightarrow> \<exists>sh'. ws_cell rdr sh (p, v) = Inr sh'"
  by (auto simp: ws_cell_def Let_def)

lemma write_cells_other:
  "write_cells rdr sh as = Inr sh' \<Longrightarrow> q \<notin> fst ` set as \<Longrightarrow> map_of sh' q = map_of sh q"
proof (induction as arbitrary: sh)
  case Nil
  then show ?case by simp
next
  case (Cons a as)
  obtain p v where a: "a = (p, v)" by (cases a)
  from Cons.prems(1) obtain sh1 where s1: "ws_cell rdr sh (p, v) = Inr sh1"
    and s2: "write_cells rdr sh1 as = Inr sh'"
    by (auto simp: a split: sum.splits)
  from Cons.prems(2) have "q \<noteq> p" "q \<notin> fst ` set as" by (auto simp: a)
  with Cons.IH [OF s2] ws_cell_lookup [OF s1, of q] show ?case by simp
qed

lemma write_cells_distinct:
  "write_cells rdr sh as = Inr sh' \<Longrightarrow> distinct (map fst as) \<Longrightarrow> (p, v) \<in> set as \<Longrightarrow>
   map_of sh' p = cell_after (map_of sh p) v"
proof (induction as arbitrary: sh)
  case Nil
  then show ?case by simp
next
  case (Cons a as)
  obtain p0 v0 where a: "a = (p0, v0)" by (cases a)
  from Cons.prems(1) obtain sh1 where s1: "ws_cell rdr sh (p0, v0) = Inr sh1"
    and s2: "write_cells rdr sh1 as = Inr sh'"
    by (auto simp: a split: sum.splits)
  from Cons.prems(2) have d: "p0 \<notin> fst ` set as" "distinct (map fst as)" by (auto simp: a)
  show ?case
  proof (cases "p = p0")
    case True
    with d(1) have "(p, v) \<notin> set as" by force
    with Cons.prems(3) True have "v = v0" by (simp add: a)
    with True write_cells_other [OF s2 d(1)] ws_cell_lookup [OF s1, of p0] show ?thesis by simp
  next
    case False
    with Cons.prems(3) have mem: "(p, v) \<in> set as" by (simp add: a)
    from Cons.IH [OF s2 d(2) mem] ws_cell_lookup [OF s1, of p] False show ?thesis by simp
  qed
qed

lemma write_cells_ok:
  "\<forall>a \<in> set as. 1 \<le> fst (fst a) \<and> 1 \<le> snd (fst a) \<and> (snd a = VNone \<or> excel_ok (snd a)) \<Longrightarrow>
   \<exists>sh'. write_cells rdr sh as = Inr sh'"
proof (induction as arbitrary: sh)
  case Nil
  then show ?case by simp
next
  case (Cons a as)
  obtain p v where a: "a = (p, v)" by (cases a)
  from Cons.prems have "1 \<le> fst p" "1 \<le> snd p" "v = VNone \<or> excel_ok v" by (auto simp: a)
  from ws_cell_ok [OF this] obtain sh1 where s1: "ws_cell rdr sh (p, v) = Inr sh1" by blast
  from Cons.IH [of sh1] Cons.prems obtain sh' where "write_cells rdr sh1 as = Inr sh'" by auto
  with s1 show ?case by (simp add: a)
qed

lemma row_le_max_row: "((r, c), v) \<in> set sh \<Longrightarrow> r \<le> max_row sh"
proof -
  assume m: "((r, c), v) \<in> set sh"
  then have ne: "sh \<noteq> []" by auto
  have "r \<in> set (map (\<lambda>a. fst (fst a)) sh)" using m by force
  then have "r \<le> Max (set (map (\<lambda>a. fst (fst a)) sh))" by (intro Max_ge) auto
  with ne show ?thesis by (simp add: max_row_def)
qed

lemma map_of_filter_key:
  "map_of (filter (\<lambda>a. P (fst a)) xs) k = (if P k then map_of xs k else None)"
  by (induction xs) auto

lemma delete_rows_all:
  assumes "max_row sh < idx + amount"
  shows "delete_rows idx amount sh = filter (\<lambda>a. fst (fst a) < idx) sh"
proof -
  have small: "\<And>r c v. ((r, c), v) \<in> set sh \<Longrightarrow> r < idx + amount"
  proof -
    fix r c v assume "((r, c), v) \<in> set sh"
    then have "r \<le> max_row sh" by (rule row_le_max_row)
    with assms show "r < idx + amount" by simp
  qed
  have f: "filter (\<lambda>((r, c), v). r < idx \<or> idx + amount \<le> r) sh = filter (\<lambda>a. fst (fst a) < idx) sh"
  proof (rule filter_cong [OF refl])
    fix a assume "a \<in> set sh"
    then have "fst (fst a) < idx + amount" using small [of "fst (fst a)" "snd (fst a)" "snd a"] by simp
    then show "(case a of (x, xa) \<Rightarrow> (case x of (r, c) \<Rightarrow> \<lambda>v. r < idx \<or> idx + amount \<le> r) xa)
        = (fst (fst a) < idx)"
      by (auto simp: split_def)
  qed
  have "map (\<lambda>((r, c), v). ((if idx + amount \<le> r then r - amount else r, c), v))
          (filter (\<lambda>a. fst (fst a) < idx) sh) = filter (\<lambda>a. fst (fst a) < idx) sh"
    by (rule map_idI) (auto simp: split_def)
  with f show ?thesis by (simp add: delete_rows_def)
qed

lemma no_cell_below_max_row: "max_row sh < r \<Longrightarrow> map_of sh (r, c) = None"
  using row_le_max_row [of r c _ sh] by (auto simp: map_of_eq_None_iff image_iff) 

lemma clear_estacion_lookup:
  "map_of (clear_estacion ws) (r, c) = (if r < 2 then map_of ws (r, c) else None)"
proof (cases "max_row ws > 1")
  case True
  then have "delete_rows 2 (max_row ws - 1) ws = filter (\<lambda>a. fst (fst a) < 2) ws"
    by (intro delete_rows_all) simp
  with True show ?thesis
    using map_of_filter_key [of "\<lambda>k. fst k < 2" ws "(r, c)"] by (simp add: clear_estacion_def)
next
  case False
  then show ?thesis by (simp add: clear_estacion_def no_cell_below_max_row)
qed

lemma clear_ocurrencia_lookup:
  "map_of (clear_ocurrencia wo) (r, c) = (if r < 3 then map_of wo (r, c) else None)"
proof (cases "max_row wo > 2")
  case True
  then have "delete_rows 3 (max_row wo - 2) wo = filter (\<lambda>a. fst (fst a) < 3) wo"
    by (intro delete_rows_all) simp
  with True show ?thesis
    using map_of_filter_key [of "\<lambda>k. fst k < 3" wo "(r, c)"] by (simp add: clear_ocurrencia_def)
next
  case False
  then show ?thesis by (simp add: clear_ocurrencia_def no_cell_below_max_row)
qed

lemma row_cells_mem:
  "(p, v) \<in> set (row_cells colmap r row) \<longleftrightarrow>
     (\<exists>name n. (name, n) \<in> set colmap \<and> p = (r, n) \<and> v = at_col row name)"
  by (force simp: row_cells_def)

lemma table_cells_mem:
  "(p, v) \<in> set (table_cells start colmap table) \<longleftrightarrow>
     (\<exists>j name n. j < length table \<and> (name, n) \<in> set colmap
        \<and> p = (start + j, n) \<and> v = at_col (table ! j) name)"
proof
  assume "(p, v) \<in> set (table_cells start colmap table)"
  then obtain r where r: "start \<le> r" "r < length table + start"
      and m: "(p, v) \<in> set (row_cells colmap r (table ! (r - start)))"
    by (auto simp: table_cells_def)
  from m obtain name n where "(name, n) \<in> set colmap" "p = (r, n)"
      "v = at_col (table ! (r - start)) name"
    unfolding row_cells_mem by blast
  with r show "\<exists>j name n. j < length table \<and> (name, n) \<in> set colmap
        \<and> p = (start + j, n) \<and> v = at_col (table ! j) name"
    by (intro exI [of _ "r - start"] exI [of _ name] exI [of _ n]) auto
next
  assume "\<exists>j name n. j < length table \<and> (name, n) \<in> set colmap
        \<and> p = (start + j, n) \<and> v = at_col (table ! j) name"
  then obtain j name n where j: "j < length table" "(name, n) \<in> set colmap"
      "p = (start + j, n)" "v = at_col (table ! j) name" by blast
  then have "(p, v) \<in> set (row_cells colmap (start + j) (table ! (start + j - start)))"
    unfolding row_cells_mem by auto
  moreover have "start + j \<in> set [start..<length table + start]" using j(1) by simp
  ultimately show "(p, v) \<in> set (table_cells start colmap table)"
    unfolding table_cells_def set_concat set_map by blast
qed

lemma table_cells_positions:
  "p \<in> fst ` set (table_cells start colmap table) \<longleftrightarrow>
     (\<exists>j n. j < length table \<and> n \<in> snd ` set colmap \<and> p = (start + j, n))"
proof
  assume "p \<in> fst ` set (table_cells start colmap table)"
  then obtain v where "(p, v) \<in> set (table_cells start colmap table)" by force
  then show "\<exists>j n. j < length table \<and> n \<in> snd ` set colmap \<and> p = (start + j, n)"
    unfolding table_cells_mem by force
next
  assume "\<exists>j n. j < length table \<and> n \<in> snd ` set colmap \<and> p = (start + j, n)"
  then obtain j n name where "j < length table" "(name, n) \<in> set colmap" "p = (start + j, n)"
    by force
  then have "(p, at_col (table ! j) name) \<in> set (table_cells start colmap table)"
    unfolding table_cells_mem by blast
  then show "p \<in> fst ` set (table_cells start colmap table)" by force
qed

lemma distinct_row_cells:
  "distinct (map snd colmap) \<Longrightarrow> distinct (map fst (row_cells colmap r row))"
proof -
  assume d: "distinct (map snd colmap)"
  have "map fst (row_cells colmap r row) = map (\<lambda>n. (r, n)) (map snd colmap)"
    by (simp add: row_cells_def split_def)
  with d show ?thesis by (simp add: distinct_map inj_on_def)
qed

lemma rows_cells_distinct:
  "distinct (map snd colmap) \<Longrightarrow> distinct rs \<Longrightarrow>
   distinct (map fst (concat (map (\<lambda>r. row_cells colmap r (f r)) rs)))"
proof (induction rs)
  case Nil
  then show ?case by simp
next
  case (Cons r rs)
  have here: "\<And>p. p \<in> fst ` set (row_cells colmap r (f r)) \<Longrightarrow> fst p = r"
    by (auto simp: row_cells_def)
  have there: "\<And>p. p \<in> fst ` set (concat (map (\<lambda>r. row_cells colmap r (f r)) rs)) \<Longrightarrow> fst p \<in> set rs"
    by (auto simp: row_cells_def)
  have "fst ` set (row_cells colmap r (f r))
      \<inter> fst ` set (concat (map (\<lambda>r. row_cells colmap r (f r)) rs)) = {}"
  proof (rule ccontr)
    assume "fst ` set (row_cells colmap r (f r))
      \<inter> fst ` set (concat (map (\<lambda>r. row_cells colmap r (f r)) rs)) \<noteq> {}"
    then obtain p where "p \<in> fst ` set (row_cells colmap r (f r))"
        "p \<in> fst ` set (concat (map (\<lambda>r. row_cells colmap r (f r)) rs))" by blast
    with here there have "r \<in> set rs" by metis
    with Cons.prems(2) show False by simp
  qed
  with Cons distinct_row_cells [of colmap r "f r"] show ?case by simp
qed

lemma table_cells_distinct:
  "distinct (map snd colmap) \<Longrightarrow> distinct (map fst (table_cells start colmap table))"
  unfolding table_cells_def by (rule rows_cells_distinct) simp_all

lemma write_table_cell:
  assumes "write_cells rdr sh (table_cells start colmap table) = Inr sh'"
    and "distinct (map snd colmap)" and "j < length table" and "(name, n) \<in> set colmap"
  shows "map_of sh' (start + j, n) = cell_after (map_of sh (start + j, n)) (at_col (table ! j) name)"
proof -
  have "((start + j, n), at_col (table ! j) name) \<in> set (table_cells start colmap table)"
    unfolding table_cells_mem using assms(3,4) by blast
  from write_cells_distinct [OF assms(1) table_cells_distinct [OF assms(2)] this]
  show ?thesis .
qed

lemma write_table_other:
  assumes "write_cells rdr sh (table_cells start colmap table) = Inr sh'"
    and "\<not> (start \<le> r \<and> r < start + length table \<and> c \<in> snd ` set colmap)"
  shows "map_of sh' (r, c) = map_of sh (r, c)"
proof -
  have "(r, c) \<notin> fst ` set (table_cells start colmap table)"
    unfolding table_cells_positions using assms(2) by auto
  from write_cells_other [OF assms(1) this] show ?thesis .
qed

lemma write_table_ok:
  assumes "\<forall>row \<in> set table. \<forall>name \<in> fst ` set colmap.
             at_col row name = VNone \<or> excel_ok (at_col row name)"
    and "1 \<le> start" and "\<forall>n \<in> snd ` set colmap. 1 \<le> n"
  shows "\<exists>sh'. write_cells rdr sh (table_cells start colmap table) = Inr sh'"
proof (rule write_cells_ok, intro ballI)
  fix a assume "a \<in> set (table_cells start colmap table)"
  then have "(fst a, snd a) \<in> set (table_cells start colmap table)" by simp
  then obtain j name n where j: "j < length table" "(name, n) \<in> set colmap"
      "fst a = (start + j, n)" "snd a = at_col (table ! j) name"
    unfolding table_cells_mem by blast
  from j(1) have "table ! j \<in> set table" by simp
  moreover from j(2) have "name \<in> fst ` set colmap" "n \<in> snd ` set colmap" by force+
  ultimately show "1 \<le> fst (fst a) \<and> 1 \<le> snd (fst a) \<and> (snd a = VNone \<or> excel_ok (snd a))"
    using assms j(3,4) by auto
qed

subsection \<open>The position table of the Occurrence sheet\<close>

lemma cell_after_None: "cell_after None v = Some v"
  by (simp add: cell_after_def)

lemma dict_set_new: "k \<notin> fst ` set d \<Longrightarrow> dict_set k v d = d @ [(k, v)]"
  by (induction d) auto

lemma dict_set_last: "k \<notin> fst ` set d \<Longrightarrow> dict_set k v (d @ [(k, v')]) = d @ [(k, v)]"
  by (induction d) auto

lemma foldl_dict_set_distinct:
  "distinct (map fst (d @ es)) \<Longrightarrow> foldl (\<lambda>d (k, v). dict_set k v d) d es = d @ es"
proof (induction es arbitrary: d)
  case Nil
  then show ?case by simp
next
  case (Cons e es)
  obtain k v where e: "e = (k, v)" by (cases e)
  from Cons.prems have new: "k \<notin> fst ` set d" by (auto simp: e)
  from Cons.prems have "distinct (map fst ((d @ [(k, v)]) @ es))" by (simp add: e)
  from Cons.IH [OF this] show ?case by (simp add: e dict_set_new [OF new])
qed

lemma py_dict_repeated_key:
  assumes "distinct (map fst (as @ [(k, v2)] @ bs))"
  shows "py_dict (as @ [(k, v1), (k, v2)] @ bs) = as @ [(k, v2)] @ bs"
proof -
  from assms have das: "distinct (map fst ([] @ as))" and new: "k \<notin> fst ` set as"
    and rest: "distinct (map fst ((as @ [(k, v2)]) @ bs))" by auto
  have "py_dict (as @ [(k, v1), (k, v2)] @ bs)
      = foldl (\<lambda>d (k, v). dict_set k v d) (dict_set k v2 (dict_set k v1 as)) bs"
    by (simp add: py_dict_def foldl_dict_set_distinct [OF das])
  also have "dict_set k v2 (dict_set k v1 as) = as @ [(k, v2)]"
    by (simp add: dict_set_new [OF new] dict_set_last [OF new])
  finally show ?thesis by (simp add: foldl_dict_set_distinct [OF rest])
qed

lemma strict_sorted_numerals: "sorted_wrt (<) (x # y # zs) = (x < y \<and> sorted_wrt (<) (y # zs))"
  for x :: nat
  by (rule sorted_wrt2) (simp add: transp_def)

lemma numero_registro_eval:
  "numero_registro =
     [(1, ID_Campana),
      (2, AUTOCOMPLETADO_NombreCampana),
      (3, ID_EstacionReplica),
      (4, AUTOCOMPLETADO_NombreEstacion),
      (5, ''A'' @ [ntilde] @ ''o del evento''),
      (6, ''Mes del evento''),
      (7, ''D'' @ [iacute] @ ''a del evento''),
      (8, ''Hora inicio evento (hh:mm)''),
      (9, ''Protocolo de muestreo''),
      (10, ''Tama'' @ [ntilde] @ ''o de la muestra''),
      (11, ''Unidad del tama'' @ [ntilde] @ ''o de la muestra''),
      (12, ''Esfuerzo de muestreo''),
      (13, ''Profundidad (m)''),
      (14, ''Comentarios del evento''),
      (15, ''Reino''),
      (16, ''Filo o divisi'' @ [oacute] @ ''n''),
      (17, ''Clase''),
      (18, ''Orden''),
      (19, ''Familia''),
      (20, ''G'' @ [eacute] @ ''nero''),
      (21, ''Subg'' @ [eacute] @ ''nero''),
      (22, ''Ep'' @ [iacute] @ ''teto espec'' @ [iacute] @ ''fico''),
      (23, ''Ep'' @ [iacute] @ ''teto infraespec'' @ [iacute] @ ''fico''),
      (24, ''Nombre com'' @ [CHR 0xFA] @ ''n''),
      (25, ''Comentarios del tax'' @ [oacute] @ ''n''),
      (26, ''Estado del organismo''),
      (27, ''Tipo de componente abi'' @ [oacute] @ ''tico''),
      (28, ''Par'' @ [aacute] @ ''metro''),
      (29, ''Tipo de cuantificaci'' @ [oacute] @ ''n''),
      (30, ''Valor''),
      (31, ''Unidad de valor''),
      (32, Latitud_decimal_registro),
      (33, Longitud_decimal_registro),
      (34, ''Hora registro''),
      (35, ''Condici'' @ [oacute] @ ''n reproductiva''),
      (36, ''Sexo (Fauna)''),
      (37, ''Etapa de vida (Fauna)''),
      (38, ''Comportamiento (Fauna)''),
      (39, ''H'' @ [aacute] @ ''bito de crecimiento (Flora)''),
      (40, ''Propiedades din'' @ [aacute] @ ''micas''),
      (41, ''Tipo de registro''),
      (42, ''C'' @ [oacute] @ ''digo individuo''),
      (43, Muestreado_por),
      (45, Identificado_por),
      (46, Comentarios_de_la_Identificacion),
      (47, ''Observaciones adicionales'')]"
proof -
  let ?as = "[(1, ID_Campana),
               (2, AUTOCOMPLETADO_NombreCampana),
               (3, ID_EstacionReplica),
               (4, AUTOCOMPLETADO_NombreEstacion),
               (5, ''A'' @ [ntilde] @ ''o del evento''),
               (6, ''Mes del evento''),
               (7, ''D'' @ [iacute] @ ''a del evento''),
               (8, ''Hora inicio evento (hh:mm)''),
               (9, ''Protocolo de muestreo''),
               (10, ''Tama'' @ [ntilde] @ ''o de la muestra''),
               (11, ''Unidad del tama'' @ [ntilde] @ ''o de la muestra''),
               (12, ''Esfuerzo de muestreo''),
               (13, ''Profundidad (m)''),
               (14, ''Comentarios del evento''),
               (15, ''Reino''),
               (16, ''Filo o divisi'' @ [oacute] @ ''n''),
               (17, ''Clase''),
               (18, ''Orden''),
               (19, ''Familia''),
               (20, ''G'' @ [eacute] @ ''nero''),
               (21, ''Subg'' @ [eacute] @ ''nero''),
               (22, ''Ep'' @ [iacute] @ ''teto espec'' @ [iacute] @ ''fico''),
               (23, ''Ep'' @ [iacute] @ ''teto infraespec'' @ [iacute] @ ''fico''),
               (24, ''Nombre com'' @ [CHR 0xFA] @ ''n''),
               (25, ''Comentarios del tax'' @ [oacute] @ ''n''),
               (26, ''Estado del organismo''),
               (27, ''Tipo de componente abi'' @ [oacute] @ ''tico''),
               (28, ''Par'' @ [aacute] @ ''metro''),
               (29, ''Tipo de cuantificaci'' @ [oacute] @ ''n''),
               (30, ''Valor''),
               (31, ''Unidad de valor''),
               (32, Latitud_decimal_registro),
               (33, Longitud_decimal_registro),
               (34, ''Hora registro''),
               (35, ''Condici'' @ [oacute] @ ''n reproductiva''),
               (36, ''Sexo (Fauna)''),
               (37, ''Etapa de vida (Fauna)''),
               (38, ''Comportamiento (Fauna)''),
               (39, ''H'' @ [aacute] @ ''bito de crecimiento (Flora)''),
               (40, ''Propiedades din'' @ [aacute] @ ''micas''),
               (41, ''Tipo de registro''),
               (42, ''C'' @ [oacute] @ ''digo individuo'')] :: (nat \<times> string) list"
  let ?bs = "[(45, Identificado_por),
               (46, Comentarios_de_la_Identificacion),
               (47, ''Observaciones adicionales'')] :: (nat \<times> string) list"
  have "sorted_wrt (<) (map fst (?as @ [(43, Muestreado_por)] @ ?bs))"
    by (simp add: strict_sorted_numerals)
  then have "distinct (map fst (?as @ [(43, Muestreado_por)] @ ?bs))"
    unfolding strict_sorted_iff by blast
  from py_dict_repeated_key [OF this, of Comentarios_del_registro_biologico]
  show ?thesis by (simp add: numero_registro_def)
qed

lemma swap_sorted_assoc:
  "distinct (map fst nr) \<Longrightarrow>
   map (\<lambda>n. (the (map_of nr n), n)) (map fst nr) = map (\<lambda>a. (snd a, fst a)) nr"
proof (induction nr)
  case Nil
  then show ?case by simp
next
  case (Cons a nr)
  have "map (\<lambda>n. (the (map_of (a # nr) n), n)) (map fst nr)
      = map (\<lambda>n. (the (map_of nr n), n)) (map fst nr)"
    using Cons.prems by (intro map_cong refl) (auto simp: image_iff)
  with Cons show ?case by (simp add: comp_def)
qed

lemma numero_registro_sorted: "sorted_wrt (<) (map fst numero_registro)"
  unfolding numero_registro_eval by (simp add: strict_sorted_numerals)

lemma registro_colmap_eval: "registro_colmap = map (\<lambda>a. (snd a, fst a)) numero_registro"
proof -
  from numero_registro_sorted have s: "sorted (map fst numero_registro)"
    and d: "distinct (map fst numero_registro)"
    unfolding strict_sorted_iff by blast+
  show ?thesis
    unfolding registro_colmap_def sorted_sort_id [OF s] by (rule swap_sorted_assoc [OF d])
qed

lemma registro_colmap_positions: "map snd registro_colmap = [1..<44] @ [45, 46, 47]"
  unfolding registro_colmap_eval by (simp add: comp_def numero_registro_eval upt_rec)

lemma registro_colmap_distinct: "distinct (map snd registro_colmap)"
  using numero_registro_sorted unfolding registro_colmap_eval strict_sorted_iff
  by (simp add: comp_def)

lemma registro_colmap_mem:
  "(Muestreado_por, 43) \<in> set registro_colmap"
  "(Identificado_por, 45) \<in> set registro_colmap"
  "(Comentarios_de_la_Identificacion, 46) \<in> set registro_colmap"
  "(ID_EstacionReplica, 3) \<in> set registro_colmap"
  unfolding registro_colmap_eval by (simp_all add: numero_registro_eval)

lemma registro_colmap_no_comentarios:
  "Comentarios_del_registro_biologico \<notin> fst ` set registro_colmap"
  unfolding registro_colmap_eval by (simp add: numero_registro_eval field_names)

lemma numero_registro_43: "map_of numero_registro 43 = Some Muestreado_por"
  by (simp add: numero_registro_eval)

lemma registro_cell_identificado:
  "registro_cell cols src Identificado_por = VStr ''AMS Consultores''"
  "registro_cell cols src Comentarios_de_la_Identificacion = VStr ''AMS Consultores''"
  by (simp_all add: registro_cell_def field_names)

lemma registro_policy:
  "map_get REGISTRO_MAP Identificado_por = None"
  "map_get REGISTRO_MAP Comentarios_de_la_Identificacion = None"
  "Identificado_por \<in> set space_fields"
  "Comentarios_de_la_Identificacion \<in> set space_fields"
  by (simp_all add: map_get_def REGISTRO_MAP_def space_fields_def field_names)

text \<open>
  C5. In every row of the Record pass the fields \<^verbatim>\<open>Identificado por\<close> and
  \<^verbatim>\<open>Comentarios de la Identificaci\<dots>n\<close> hold the constant \<^verbatim>\<open>AMS Consultores\<close>, whatever
  the fetched record holds, although the mapping table gives them no source and the
  one-space policy lists them; the writer puts the constant in columns 45 and 46 of every
  row it writes.
\<close>

theorem identified_by_constant:
  "(\<forall>r \<in> set (registro_rows df).
       at_col r Identificado_por = VStr ''AMS Consultores''
     \<and> at_col r Comentarios_de_la_Identificacion = VStr ''AMS Consultores'')
   \<and> map_get REGISTRO_MAP Identificado_por = None
   \<and> map_get REGISTRO_MAP Comentarios_de_la_Identificacion = None
   \<and> Identificado_por \<in> set space_fields
   \<and> Comentarios_de_la_Identificacion \<in> set space_fields
   \<and> (write_cells rdr wo (table_cells 3 registro_colmap (registro_rows df)) = Inr wo' \<longrightarrow>
        (\<forall>j < length (rows df).
            map_of wo' (3 + j, 45) = Some (VStr ''AMS Consultores'')
          \<and> map_of wo' (3 + j, 46) = Some (VStr ''AMS Consultores'')))"
proof (intro conjI ballI impI allI)
  fix r assume "r \<in> set (registro_rows df)"
  then obtain src where r: "r = registro_row (columns df) src" by (auto simp: registro_rows_def)
  show "at_col r Identificado_por = VStr ''AMS Consultores''"
    by (simp add: r at_col_registro_row registro_columns_mem registro_cell_identificado)
  show "at_col r Comentarios_de_la_Identificacion = VStr ''AMS Consultores''"
    by (simp add: r at_col_registro_row registro_columns_mem registro_cell_identificado)
next
  fix j
  assume w: "write_cells rdr wo (table_cells 3 registro_colmap (registro_rows df)) = Inr wo'"
    and j: "j < length (rows df)"
  then have j': "j < length (registro_rows df)" by (simp add: registro_rows_def)
  have row: "registro_rows df ! j = registro_row (columns df) (rows df ! j)"
    using j by (simp add: registro_rows_def)
  from write_table_cell [OF w registro_colmap_distinct j' registro_colmap_mem(2)]
  show "map_of wo' (3 + j, 45) = Some (VStr ''AMS Consultores'')"
    by (simp add: row at_col_registro_row registro_columns_mem registro_cell_identificado
        cell_after_def)
  from write_table_cell [OF w registro_colmap_distinct j' registro_colmap_mem(3)]
  show "map_of wo' (3 + j, 46) = Some (VStr ''AMS Consultores'')"
    by (simp add: row at_col_registro_row registro_columns_mem registro_cell_identificado
        cell_after_def)
qed (rule registro_policy)+

theorem identified_by_constant_witness:
  "at_col (hd (registro_rows
      \<lparr>columns = [''Identificado por'', ''genero''],
       rows = [[(''Identificado por'', VStr ''J. Perez''), (''genero'', VStr ''Quillaja'')]]\<rparr>))
     Identificado_por = VStr ''AMS Consultores''
   \<and> at_col (hd (registro_rows
      \<lparr>columns = [''Identificado por'', ''genero''],
       rows = [[(''Identificado por'', VStr ''J. Perez''), (''genero'', VStr ''Quillaja'')]]\<rparr>))
     Comentarios_de_la_Identificacion = VStr ''AMS Consultores''"
  using identified_by_constant [of
      "\<lparr>columns = [''Identificado por'', ''genero''],
       rows = [[(''Identificado por'', VStr ''J. Perez''), (''genero'', VStr ''Quillaja'')]]\<rparr>"]
  by (simp add: registro_rows_def)

text \<open>
  C3. The position table names 43 twice, and the dict keeps the later name,
  \<^verbatim>\<open>Muestreado por\<close>. The writer visits the positions 1 to 43 and 45 to 47 in ascending
  order: column 43 of every written row takes the row's \<^verbatim>\<open>Muestreado por\<close>, the field
  \<^verbatim>\<open>Comentarios del registro biol\<dots>gico\<close> is written at no column, and column 44 holds
  no cell from row 3 on.
\<close>

theorem duplicate_position_43:
  "map_of numero_registro 43 = Some Muestreado_por
   \<and> map snd registro_colmap = [1..<44] @ [45, 46, 47]
   \<and> Comentarios_del_registro_biologico \<notin> fst ` set registro_colmap
   \<and> (write_cells rdr (clear_ocurrencia wo) (table_cells 3 registro_colmap table) = Inr wo' \<longrightarrow>
        (\<forall>j < length table. map_of wo' (3 + j, 43) = Some (at_col (table ! j) Muestreado_por))
      \<and> (\<forall>r \<ge> 3. map_of wo' (r, 44) = None))"
proof (intro conjI impI allI)
  show "map_of numero_registro 43 = Some Muestreado_por" by (rule numero_registro_43)
  show "map snd registro_colmap = [1..<44] @ [45, 46, 47]" by (rule registro_colmap_positions)
  show "Comentarios_del_registro_biologico \<notin> fst ` set registro_colmap"
    by (rule registro_colmap_no_comentarios)
next
  fix j
  assume w: "write_cells rdr (clear_ocurrencia wo) (table_cells 3 registro_colmap table) = Inr wo'"
    and j: "j < length table"
  from write_table_cell [OF w registro_colmap_distinct j registro_colmap_mem(1)]
  show "map_of wo' (3 + j, 43) = Some (at_col (table ! j) Muestreado_por)"
    by (simp add: clear_ocurrencia_lookup cell_after_None)
next
  fix r :: nat
  assume w: "write_cells rdr (clear_ocurrencia wo) (table_cells 3 registro_colmap table) = Inr wo'"
    and r: "3 \<le> r"
  have "snd ` set registro_colmap = set (map snd registro_colmap)" by simp
  also have "\<dots> = {1..<44} \<union> {45, 46, 47}"
    unfolding registro_colmap_positions by (simp only: set_append set_upt list.set) 
  finally have "44 \<notin> snd ` set registro_colmap" by simp
  then have "\<not> (3 \<le> r \<and> r < 3 + length table \<and> 44 \<in> snd ` set registro_colmap)" by simp
  from write_table_other [OF w this] r
  show "map_of wo' (r, 44) = None" by (simp add: clear_ocurrencia_lookup)
qed

lemma registro_colmap_ge1: "\<forall>n \<in> snd ` set registro_colmap. 1 \<le> n"
proof -
  have "snd ` set registro_colmap = set (map snd registro_colmap)" by simp
  also have "\<dots> = {1..<44} \<union> {45, 46, 47}"
    unfolding registro_colmap_positions by (simp only: set_append set_upt list.set)
  finally show ?thesis by auto
qed

theorem duplicate_position_43_witness:
  "\<exists>wo'. write_cells (\<lambda>v. []) (clear_ocurrencia [((5, 44), VStr ''old'')])
            (table_cells 3 registro_colmap
               [[(Muestreado_por, VStr ''M''), (Comentarios_del_registro_biologico, VStr ''C'')]])
          = Inr wo'
        \<and> map_of wo' (3, 43) = Some (VStr ''M'')
        \<and> map_of wo' (5, 44) = None"
proof -
  let ?table = "[[(Muestreado_por, VStr ''M''), (Comentarios_del_registro_biologico, VStr ''C'')]]"
  let ?wo = "[((5, 44), VStr ''old'')] :: sheet"
  have ok: "\<forall>row \<in> set ?table. \<forall>name \<in> fst ` set registro_colmap.
             at_col row name = VNone \<or> excel_ok (at_col row name)"
    by (simp add: at_col_def excel_ok_def)
  from write_table_ok [OF ok _ registro_colmap_ge1, of 3 "\<lambda>v. []" "clear_ocurrencia ?wo"]
  obtain wo' where w: "write_cells (\<lambda>v. []) (clear_ocurrencia ?wo)
      (table_cells 3 registro_colmap ?table) = Inr wo'" by auto
  from duplicate_position_43 [of "\<lambda>v. []" ?wo ?table wo'] w
  have "\<forall>j < length ?table. map_of wo' (3 + j, 43) = Some (at_col (?table ! j) Muestreado_por)"
    and "\<forall>r \<ge> 3. map_of wo' (r, 44) = None" by blast+
  then have "map_of wo' (3 + 0, 43) = Some (at_col (?table ! 0) Muestreado_por)"
    and "map_of wo' (5, 44) = None" by simp_all
  then have "map_of wo' (3, 43) = Some (VStr ''M'')" "map_of wo' (5, 44) = None"
    by (simp_all add: at_col_def)
  with w show ?thesis by blast
qed

subsection \<open>The name of the saved file\<close>

lemma sub_runs_chars: "c \<in> set (sub_runs w b s) \<Longrightarrow> w c \<or> c = CHR ''-''"
  by (induction s arbitrary: b) (auto split: if_splits)

lemma strip_char_subset: "set (strip_char x s) \<subseteq> set s"
  by (auto simp: strip_char_def dest!: set_dropWhileD)

lemma safe_filename_chars:
  "safe_filename w s = ''file'' \<or>
   (safe_filename w s \<noteq> [] \<and> (\<forall>c \<in> set (safe_filename w s). w c \<or> c = CHR ''-''))"
proof (cases "strip_char (CHR ''-'') (sub_runs w False s) = []")
  case True
  then show ?thesis by (simp add: safe_filename_def)
next
  case False
  then have eq: "safe_filename w s = strip_char (CHR ''-'') (sub_runs w False s)"
    by (simp add: safe_filename_def)
  have "\<forall>c \<in> set (strip_char (CHR ''-'') (sub_runs w False s)). w c \<or> c = CHR ''-''"
    using strip_char_subset [of "CHR ''-''" "sub_runs w False s"] sub_runs_chars [of _ w False s]
    by blast
  with False eq show ?thesis by simp
qed

lemma safe_filename_no_slash: "\<not> w (CHR ''/'') \<Longrightarrow> CHR ''/'' \<notin> set (safe_filename w s)"
  using safe_filename_chars [of w s] by auto

lemma out_name_eq_iff:
  "out_name w cid u = out_name w cid u' \<longleftrightarrow> take 6 u = take 6 u'"
  by (simp add: out_name_def)

lemma export_frames_path:
  "export_frames e cid dc de dr = Inr (p, wb) \<Longrightarrow>
   p = ''/tmp/downloads/'' @ out_name (is_word e) cid (uuid4_hex e)"
  by (auto simp: export_frames_def bind_exc_def split: if_splits sum.splits)

lemma generar_path:
  "generar_excel_fauna_like e cid = Inr (p, wb) \<Longrightarrow>
   p = ''/tmp/downloads/'' @ out_name (is_word e) cid (uuid4_hex e)"
  by (auto simp: generar_excel_fauna_like_def bind_exc_def split: sum.splits
      dest: export_frames_path)

text \<open>
  C9, as amended. The saved file is named \<^verbatim>\<open>Flora_\<close>, the sanitized campaign identifier,
  an underscore, the first six characters of the fresh uuid's hexadecimal text and
  \<^verbatim>\<open>.xlsx\<close>, in the download directory. The sanitized identifier is \<^verbatim>\<open>file\<close>, or a
  non-empty text of word characters and hyphens. Two exports of one campaign get
  different names exactly when the six-character prefixes of their uuids differ.
\<close>

theorem output_file_name:
  "out_name w cid u = ''Flora_'' @ safe_filename w cid @ ''_'' @ take 6 u @ ''.xlsx''
   \<and> (safe_filename w cid = ''file'' \<or>
        (safe_filename w cid \<noteq> [] \<and> (\<forall>c \<in> set (safe_filename w cid). w c \<or> c = CHR ''-'')))
   \<and> (length u = 32 \<longrightarrow> length (take 6 u) = 6)
   \<and> set (take 6 u) \<subseteq> set u
   \<and> (out_name w cid u = out_name w cid u' \<longleftrightarrow> take 6 u = take 6 u')
   \<and> (generar_excel_fauna_like e cid = Inr (p, wb) \<longrightarrow>
        p = ''/tmp/downloads/'' @ out_name (is_word e) cid (uuid4_hex e))"
  using safe_filename_chars [of w cid] out_name_eq_iff [of w cid u u'] generar_path [of e cid p wb]
  by (auto simp: out_name_def dest: in_set_takeD)

theorem output_file_name_witness:
  "out_name ascii_word ''camp 2024/01'' ''3f2a9c0b1d4e4a6f8b7c2d1e0f9a8b7c''
     = ''Flora_camp-2024-01_3f2a9c.xlsx''
   \<and> out_name ascii_word ''***'' ''3f2a9c0b1d4e4a6f8b7c2d1e0f9a8b7c'' = ''Flora_file_3f2a9c.xlsx''
   \<and> out_name ascii_word ''camp 2024/01'' ''3f2a9c0b1d4e4a6f8b7c2d1e0f9a8b7c''
     \<noteq> out_name ascii_word ''camp 2024/01'' ''9e8d7c0b1d4e4a6f8b7c2d1e0f9a8b7c''"
proof -
  have s1: "safe_filename ascii_word ''camp 2024/01'' = ''camp-2024-01''"
    by (simp add: safe_filename_def strip_char_def ascii_word_def)
  have s2: "safe_filename ascii_word ''***'' = ''file''"
    by (simp add: safe_filename_def strip_char_def ascii_word_def)
  have n1: "out_name ascii_word ''camp 2024/01'' ''3f2a9c0b1d4e4a6f8b7c2d1e0f9a8b7c''
      = ''Flora_'' @ safe_filename ascii_word ''camp 2024/01'' @ ''_''
          @ take 6 ''3f2a9c0b1d4e4a6f8b7c2d1e0f9a8b7c'' @ ''.xlsx''"
    by (rule output_file_name [THEN conjunct1])
  have n2: "out_name ascii_word ''***'' ''3f2a9c0b1d4e4a6f8b7c2d1e0f9a8b7c''
      = ''Flora_'' @ safe_filename ascii_word ''***'' @ ''_''
          @ take 6 ''3f2a9c0b1d4e4a6f8b7c2d1e0f9a8b7c'' @ ''.xlsx''"
    by (rule output_file_name [THEN conjunct1])
  have n3: "(out_name ascii_word ''camp 2024/01'' ''3f2a9c0b1d4e4a6f8b7c2d1e0f9a8b7c''
      = out_name ascii_word ''camp 2024/01'' ''9e8d7c0b1d4e4a6f8b7c2d1e0f9a8b7c'')
      \<longleftrightarrow> take 6 ''3f2a9c0b1d4e4a6f8b7c2d1e0f9a8b7c'' = take 6 ''9e8d7c0b1d4e4a6f8b7c2d1e0f9a8b7c''"
    by (rule output_file_name [THEN conjunct2, THEN conjunct2, THEN conjunct2, THEN conjunct2,
          THEN conjunct1])
  from n3 have differ: "out_name ascii_word ''camp 2024/01'' ''3f2a9c0b1d4e4a6f8b7c2d1e0f9a8b7c''
      \<noteq> out_name ascii_word ''camp 2024/01'' ''9e8d7c0b1d4e4a6f8b7c2d1e0f9a8b7c''"
    by simp
  from n1 have e1: "out_name ascii_word ''camp 2024/01'' ''3f2a9c0b1d4e4a6f8b7c2d1e0f9a8b7c''
      = ''Flora_camp-2024-01_3f2a9c.xlsx''"
    by (simp add: s1)
  from n2 have e2: "out_name ascii_word ''***'' ''3f2a9c0b1d4e4a6f8b7c2d1e0f9a8b7c''
      = ''Flora_file_3f2a9c.xlsx''"
    by (simp add: s2)
  from e1 e2 differ show ?thesis by blast
qed

text \<open>
  The claim as stated fails for two exports whose uuids differ and share their first six
  hexadecimal digits: both files get the same name.
\<close>

theorem output_file_name_collision:
  "out_name ascii_word ''camp1'' ''3f2a9c0b1d4e4a6f8b7c2d1e0f9a8b7c''
     = out_name ascii_word ''camp1'' ''3f2a9c77aaaa4bbb8ccc0123456789ab''
   \<and> ''3f2a9c0b1d4e4a6f8b7c2d1e0f9a8b7c'' \<noteq> ''3f2a9c77aaaa4bbb8ccc0123456789ab''"
  by (simp add: out_name_def)

subsection \<open>What the writer clears\<close>

lemma numeros_campana_distinct: "distinct (map snd numeros_campana)"
  by (simp add: numeros_campana_def)

lemma numeros_estacion_distinct: "distinct (map snd numeros_estacion)"
  by (simp add: numeros_estacion_def)

lemma numeros_campana_ge1: "\<forall>n \<in> snd ` set numeros_campana. 1 \<le> n"
  by (simp add: numeros_campana_def)

lemma numeros_estacion_ge1: "\<forall>n \<in> snd ` set numeros_estacion. 1 \<le> n"
  by (simp add: numeros_estacion_def)

lemma write_workbook_Inr:
  assumes "write_workbook rdr wb t = Inr wb'"
  shows "write_cells rdr (Campana wb)
           (table_cells 3 numeros_campana (df_campana_plantilla t)) = Inr (Campana wb')"
    and "write_cells rdr (clear_estacion (EstacionReplica wb))
           (table_cells 2 numeros_estacion (df_estacion_plantilla t)) = Inr (EstacionReplica wb')"
    and "write_cells rdr (clear_ocurrencia (Ocurrencia wb))
           (table_cells 3 registro_colmap (df_registro_plantilla t)) = Inr (Ocurrencia wb')"
  using assms by (auto simp: write_workbook_def bind_exc_def split: sum.splits)

lemma write_workbook_ok:
  assumes "\<forall>row \<in> set (df_campana_plantilla t). \<forall>name \<in> fst ` set numeros_campana.
             at_col row name = VNone \<or> excel_ok (at_col row name)"
    and "\<forall>row \<in> set (df_estacion_plantilla t). \<forall>name \<in> fst ` set numeros_estacion.
             at_col row name = VNone \<or> excel_ok (at_col row name)"
    and "\<forall>row \<in> set (df_registro_plantilla t). \<forall>name \<in> fst ` set registro_colmap.
             at_col row name = VNone \<or> excel_ok (at_col row name)"
  shows "\<exists>wb'. write_workbook rdr wb t = Inr wb'"
proof -
  from write_table_ok [OF assms(1) _ numeros_campana_ge1, of 3 rdr "Campana wb"]
  obtain wc where wc: "write_cells rdr (Campana wb)
      (table_cells 3 numeros_campana (df_campana_plantilla t)) = Inr wc" by auto
  from write_table_ok [OF assms(2) _ numeros_estacion_ge1, of 2 rdr "clear_estacion (EstacionReplica wb)"]
  obtain ws where ws: "write_cells rdr (clear_estacion (EstacionReplica wb))
      (table_cells 2 numeros_estacion (df_estacion_plantilla t)) = Inr ws" by auto
  from write_table_ok [OF assms(3) _ registro_colmap_ge1, of 3 rdr "clear_ocurrencia (Ocurrencia wb)"]
  obtain wo where wo: "write_cells rdr (clear_ocurrencia (Ocurrencia wb))
      (table_cells 3 registro_colmap (df_registro_plantilla t)) = Inr wo" by auto
  from wc ws wo show ?thesis by (simp add: write_workbook_def bind_exc_def)
qed

lemma cleared_sheet_after_write:
  assumes w: "write_cells rdr cleared (table_cells start colmap table) = Inr sh'"
    and cl: "\<And>r c. map_of cleared (r, c) = (if r < start then map_of sh (r, c) else None)"
    and d: "distinct (map snd colmap)"
  shows "(\<forall>r c. r < start \<longrightarrow> map_of sh' (r, c) = map_of sh (r, c))
       \<and> (\<forall>j name n. j < length table \<and> (name, n) \<in> set colmap \<longrightarrow>
            map_of sh' (start + j, n) = Some (at_col (table ! j) name))
       \<and> (\<forall>r c. start \<le> r \<and> \<not> (r < start + length table \<and> c \<in> snd ` set colmap) \<longrightarrow>
            map_of sh' (r, c) = None)"
proof (intro conjI allI impI)
  fix r c assume "r < start"
  then have "\<not> (start \<le> r \<and> r < start + length table \<and> c \<in> snd ` set colmap)" by simp
  from write_table_other [OF w this] \<open>r < start\<close> show "map_of sh' (r, c) = map_of sh (r, c)"
    by (simp add: cl)
next
  fix j name n assume "j < length table \<and> (name, n) \<in> set colmap"
  then have j: "j < length table" and m: "(name, n) \<in> set colmap" by blast+
  from write_table_cell [OF w d j m]
  show "map_of sh' (start + j, n) = Some (at_col (table ! j) name)"
    by (simp add: cl cell_after_None)
next
  fix r c assume h: "start \<le> r \<and> \<not> (r < start + length table \<and> c \<in> snd ` set colmap)"
  then have "\<not> (start \<le> r \<and> r < start + length table \<and> c \<in> snd ` set colmap)" by blast
  from write_table_other [OF w this] h show "map_of sh' (r, c) = None" by (simp add: cl)
qed

text \<open>
  C7, as amended. Before it writes, the writer deletes every row below the header of the
  sheets \<^verbatim>\<open>EstacionReplica\<close> (from row 2) and \<^verbatim>\<open>Ocurrencia\<close> (from row 3): in the saved
  workbook the header rows are the template's, the written rows hold the table's values
  at the declared columns, and no other cell is left below the header. The sheet
  \<^verbatim>\<open>Campa\<dots>a\<close> is not cleared: a cell outside the written row and columns keeps the
  template's value, and a written cell keeps it when the new value is \<^verbatim>\<open>None\<close>.
\<close>

theorem writer_clears_data_rows:
  "write_workbook rdr wb t = Inr wb' \<longrightarrow>
     (\<forall>r c. r < 2 \<longrightarrow> map_of (EstacionReplica wb') (r, c) = map_of (EstacionReplica wb) (r, c))
   \<and> (\<forall>j name n. j < length (df_estacion_plantilla t) \<and> (name, n) \<in> set numeros_estacion \<longrightarrow>
        map_of (EstacionReplica wb') (2 + j, n) = Some (at_col (df_estacion_plantilla t ! j) name))
   \<and> (\<forall>r c. 2 \<le> r \<and> \<not> (r < 2 + length (df_estacion_plantilla t) \<and> c \<in> snd ` set numeros_estacion)
        \<longrightarrow> map_of (EstacionReplica wb') (r, c) = None)
   \<and> (\<forall>r c. r < 3 \<longrightarrow> map_of (Ocurrencia wb') (r, c) = map_of (Ocurrencia wb) (r, c))
   \<and> (\<forall>j name n. j < length (df_registro_plantilla t) \<and> (name, n) \<in> set registro_colmap \<longrightarrow>
        map_of (Ocurrencia wb') (3 + j, n) = Some (at_col (df_registro_plantilla t ! j) name))
   \<and> (\<forall>r c. 3 \<le> r \<and> \<not> (r < 3 + length (df_registro_plantilla t) \<and> c \<in> snd ` set registro_colmap)
        \<longrightarrow> map_of (Ocurrencia wb') (r, c) = None)
   \<and> (\<forall>r c. \<not> (3 \<le> r \<and> r < 3 + length (df_campana_plantilla t) \<and> c \<in> snd ` set numeros_campana)
        \<longrightarrow> map_of (Campana wb') (r, c) = map_of (Campana wb) (r, c))
   \<and> (\<forall>j name n. j < length (df_campana_plantilla t) \<and> (name, n) \<in> set numeros_campana \<longrightarrow>
        map_of (Campana wb') (3 + j, n)
          = cell_after (map_of (Campana wb) (3 + j, n)) (at_col (df_campana_plantilla t ! j) name))"
proof
  assume w: "write_workbook rdr wb t = Inr wb'"
  note ws = cleared_sheet_after_write [OF write_workbook_Inr(2) [OF w] clear_estacion_lookup
      numeros_estacion_distinct]
  note wo = cleared_sheet_after_write [OF write_workbook_Inr(3) [OF w] clear_ocurrencia_lookup
      registro_colmap_distinct]
  have wc1: "\<forall>r c. \<not> (3 \<le> r \<and> r < 3 + length (df_campana_plantilla t) \<and> c \<in> snd ` set numeros_campana)
        \<longrightarrow> map_of (Campana wb') (r, c) = map_of (Campana wb) (r, c)"
    using write_table_other [OF write_workbook_Inr(1) [OF w]] by blast
  have wc2: "\<forall>j name n. j < length (df_campana_plantilla t) \<and> (name, n) \<in> set numeros_campana \<longrightarrow>
        map_of (Campana wb') (3 + j, n)
          = cell_after (map_of (Campana wb) (3 + j, n)) (at_col (df_campana_plantilla t ! j) name)"
    using write_table_cell [OF write_workbook_Inr(1) [OF w] numeros_campana_distinct] by blast
  from ws wo wc1 wc2
  show "(\<forall>r c. r < 2 \<longrightarrow> map_of (EstacionReplica wb') (r, c) = map_of (EstacionReplica wb) (r, c))
   \<and> (\<forall>j name n. j < length (df_estacion_plantilla t) \<and> (name, n) \<in> set numeros_estacion \<longrightarrow>
        map_of (EstacionReplica wb') (2 + j, n) = Some (at_col (df_estacion_plantilla t ! j) name))
   \<and> (\<forall>r c. 2 \<le> r \<and> \<not> (r < 2 + length (df_estacion_plantilla t) \<and> c \<in> snd ` set numeros_estacion)
        \<longrightarrow> map_of (EstacionReplica wb') (r, c) = None)
   \<and> (\<forall>r c. r < 3 \<longrightarrow> map_of (Ocurrencia wb') (r, c) = map_of (Ocurrencia wb) (r, c))
   \<and> (\<forall>j name n. j < length (df_registro_plantilla t) \<and> (name, n) \<in> set registro_colmap \<longrightarrow>
        map_of (Ocurrencia wb') (3 + j, n) = Some (at_col (df_registro_plantilla t ! j) name))
   \<and> (\<forall>r c. 3 \<le> r \<and> \<not> (r < 3 + length (df_registro_plantilla t) \<and> c \<in> snd ` set registro_colmap)
        \<longrightarrow> map_of (Ocurrencia wb') (r, c) = None)
   \<and> (\<forall>r c. \<not> (3 \<le> r \<and> r < 3 + length (df_campana_plantilla t) \<and> c \<in> snd ` set numeros_campana)
        \<longrightarrow> map_of (Campana wb') (r, c) = map_of (Campana wb) (r, c))
   \<and> (\<forall>j name n. j < length (df_campana_plantilla t) \<and> (name, n) \<in> set numeros_campana \<longrightarrow>
        map_of (Campana wb') (3 + j, n)
          = cell_after (map_of (Campana wb) (3 + j, n)) (at_col (df_campana_plantilla t ! j) name))"
    by (intro conjI) blast+
qed

lemma example_tables_ok:
  "\<exists>wb'. write_workbook (\<lambda>v. [])
      \<lparr>Campana = [((3, 10), VStr ''old objective''), ((4, 2), VStr ''old campaign'')],
       EstacionReplica = [((1, 1), VStr ''header''), ((2, 1), VStr ''old''), ((7, 3), VStr ''old'')],
       Ocurrencia = [((2, 1), VStr ''header''), ((5, 1), VStr ''old'')]\<rparr>
      \<lparr>df_campana_plantilla =
         [[(ID_Campana, VInt 1), (''Objetivo de la campa'' @ [ntilde] @ ''a'', VNone)]],
       df_estacion_plantilla = [], df_registro_plantilla = []\<rparr> = Inr wb'"
  by (rule write_workbook_ok) (simp_all add: at_col_def excel_ok_def)

theorem writer_clears_data_rows_witness:
  "\<exists>wb'. write_workbook (\<lambda>v. [])
      \<lparr>Campana = [((3, 10), VStr ''old objective''), ((4, 2), VStr ''old campaign'')],
       EstacionReplica = [((1, 1), VStr ''header''), ((2, 1), VStr ''old''), ((7, 3), VStr ''old'')],
       Ocurrencia = [((2, 1), VStr ''header''), ((5, 1), VStr ''old'')]\<rparr>
      \<lparr>df_campana_plantilla =
         [[(ID_Campana, VInt 1), (''Objetivo de la campa'' @ [ntilde] @ ''a'', VNone)]],
       df_estacion_plantilla = [], df_registro_plantilla = []\<rparr> = Inr wb'
    \<and> map_of (EstacionReplica wb') (1, 1) = Some (VStr ''header'')
    \<and> map_of (EstacionReplica wb') (2, 1) = None
    \<and> map_of (EstacionReplica wb') (7, 3) = None
    \<and> map_of (Ocurrencia wb') (2, 1) = Some (VStr ''header'')
    \<and> map_of (Ocurrencia wb') (5, 1) = None"
proof -
  let ?wb = "\<lparr>Campana = [((3, 10), VStr ''old objective''), ((4, 2), VStr ''old campaign'')],
       EstacionReplica = [((1, 1), VStr ''header''), ((2, 1), VStr ''old''), ((7, 3), VStr ''old'')],
       Ocurrencia = [((2, 1), VStr ''header''), ((5, 1), VStr ''old'')]\<rparr>"
  let ?t = "\<lparr>df_campana_plantilla =
         [[(ID_Campana, VInt 1), (''Objetivo de la campa'' @ [ntilde] @ ''a'', VNone)]],
       df_estacion_plantilla = [], df_registro_plantilla = []\<rparr>"
  from example_tables_ok obtain wb' where w: "write_workbook (\<lambda>v. []) ?wb ?t = Inr wb'" by blast
  from writer_clears_data_rows [of "\<lambda>v. []" ?wb ?t wb'] w
  have a: "\<forall>r c. r < 2 \<longrightarrow> map_of (EstacionReplica wb') (r, c) = map_of (EstacionReplica ?wb) (r, c)"
    and b: "\<forall>r c. 2 \<le> r \<and> \<not> (r < 2 + length (df_estacion_plantilla ?t) \<and> c \<in> snd ` set numeros_estacion)
        \<longrightarrow> map_of (EstacionReplica wb') (r, c) = None"
    and c: "\<forall>r c. r < 3 \<longrightarrow> map_of (Ocurrencia wb') (r, c) = map_of (Ocurrencia ?wb) (r, c)"
    and d: "\<forall>r c. 3 \<le> r \<and> \<not> (r < 3 + length (df_registro_plantilla ?t) \<and> c \<in> snd ` set registro_colmap)
        \<longrightarrow> map_of (Ocurrencia wb') (r, c) = None"
    by blast+
  from a have "map_of (EstacionReplica wb') (1, 1) = Some (VStr ''header'')" by simp
  moreover from b have "map_of (EstacionReplica wb') (2, 1) = None"
    "map_of (EstacionReplica wb') (7, 3) = None" by simp_all
  moreover from c have "map_of (Ocurrencia wb') (2, 1) = Some (VStr ''header'')" by simp
  moreover from d have "map_of (Ocurrencia wb') (5, 1) = None" by simp
  ultimately show ?thesis using w by blast
qed

text \<open>
  The claim as stated fails for the sheet \<^verbatim>\<open>Campa\<dots>a\<close>: a template that holds a value in
  row 4, and an objective in row 3, still holds both after the export has written.
\<close>

theorem campana_sheet_not_cleared:
  "\<exists>wb'. write_workbook (\<lambda>v. [])
      \<lparr>Campana = [((3, 10), VStr ''old objective''), ((4, 2), VStr ''old campaign'')],
       EstacionReplica = [((1, 1), VStr ''header''), ((2, 1), VStr ''old''), ((7, 3), VStr ''old'')],
       Ocurrencia = [((2, 1), VStr ''header''), ((5, 1), VStr ''old'')]\<rparr>
      \<lparr>df_campana_plantilla =
         [[(ID_Campana, VInt 1), (''Objetivo de la campa'' @ [ntilde] @ ''a'', VNone)]],
       df_estacion_plantilla = [], df_registro_plantilla = []\<rparr> = Inr wb'
    \<and> map_of (Campana wb') (4, 2) = Some (VStr ''old campaign'')
    \<and> map_of (Campana wb') (3, 10) = Some (VStr ''old objective'')"
proof -
  let ?wb = "\<lparr>Campana = [((3, 10), VStr ''old objective''), ((4, 2), VStr ''old campaign'')],
       EstacionReplica = [((1, 1), VStr ''header''), ((2, 1), VStr ''old''), ((7, 3), VStr ''old'')],
       Ocurrencia = [((2, 1), VStr ''header''), ((5, 1), VStr ''old'')]\<rparr>"
  let ?t = "\<lparr>df_campana_plantilla =
         [[(ID_Campana, VInt 1), (''Objetivo de la campa'' @ [ntilde] @ ''a'', VNone)]],
       df_estacion_plantilla = [], df_registro_plantilla = []\<rparr>"
  from example_tables_ok obtain wb' where w: "write_workbook (\<lambda>v. []) ?wb ?t = Inr wb'" by blast
  note wc = write_workbook_Inr(1) [OF w]
  have "\<not> (3 \<le> (4::nat) \<and> (4::nat) < 3 + length (df_campana_plantilla ?t)
      \<and> (2::nat) \<in> snd ` set numeros_campana)" by simp
  from write_table_other [OF wc this]
  have r4: "map_of (Campana wb') (4, 2) = Some (VStr ''old campaign'')" by simp
  have m: "(''Objetivo de la campa'' @ [ntilde] @ ''a'', 10) \<in> set numeros_campana"
    by (simp add: numeros_campana_def)
  from write_table_cell [OF wc numeros_campana_distinct _ m, of 0]
  have r3: "map_of (Campana wb') (3, 10) = Some (VStr ''old objective'')"
    by (simp add: cell_after_def at_col_def field_names)
  from w r4 r3 show ?thesis by blast
qed

subsection \<open>Failures and the export of a campaign without stations and records\<close>

lemma loc_assign_Inl: "loc_assign rs = Inl x \<Longrightarrow> \<exists>msg. x = Exception msg"
  by (auto simp: loc_assign_def split: if_splits)

lemma template_mapper_Inl: "template_mapper e dc de dr = Inl x \<Longrightarrow> \<exists>msg. x = Exception msg"
  by (auto simp: template_mapper_def bind_exc_def estacion_pass_def registro_pass_def split_def
      Let_def split: list.splits sum.splits dest: loc_assign_Inl)

lemma ws_cell_Inl: "ws_cell rdr sh a = Inl x \<Longrightarrow> \<exists>msg. x = Exception msg"
  by (auto simp: ws_cell_def Let_def split_def split: if_splits)

lemma write_cells_Inl: "write_cells rdr sh as = Inl x \<Longrightarrow> \<exists>msg. x = Exception msg"
  by (induction as arbitrary: sh) (auto split: sum.splits dest: ws_cell_Inl)

lemma write_workbook_Inl: "write_workbook rdr wb t = Inl x \<Longrightarrow> \<exists>msg. x = Exception msg"
  by (auto simp: write_workbook_def bind_exc_def split: sum.splits dest: write_cells_Inl)

lemma export_frames_http:
  "export_frames e cid dc de dr = Inl (HTTPException s d) \<Longrightarrow>
     (s = 404 \<and> d = not_found_detail \<and> empty_frame dc)
   \<or> (s = 500 \<and> d = template_missing_detail \<and> \<not> template_exists e \<and> \<not> empty_frame dc)"
  by (auto simp: export_frames_def bind_exc_def split: if_splits sum.splits
      dest: template_mapper_Inl write_workbook_Inl)

lemma fetch_by_campana_cases:
  "fetch_by_campana e coll cid =
     (case stream e coll (strip_char (CHR 0x22) cid) of
        Inl msg \<Rightarrow> Inl (Exception msg)
      | Inr ds \<Rightarrow> Inr (DataFrame (map (\<lambda>(i, d). dict_set ''id'' (VStr i) d) ds)))"
  by (simp add: fetch_by_campana_def strip_tz_def split: sum.splits)

lemma dict_set_not_Nil: "dict_set k v d \<noteq> []"
  by (cases d) (auto split: if_splits)

lemma DataFrame_empty:
  "empty_frame (DataFrame (map (\<lambda>(i, d). dict_set ''id'' (VStr i) d) ds)) \<longleftrightarrow> ds = []"
proof (cases ds)
  case Nil
  then show ?thesis by (simp add: empty_frame_def DataFrame_def)
next
  case (Cons a as)
  obtain i d where a: "a = (i, d)" by (cases a)
  have "concat (map (map fst) (map (\<lambda>(i, d). dict_set ''id'' (VStr i) d) ds)) \<noteq> []"
    using dict_set_not_Nil [of "''id''" "VStr i" d] by (simp add: Cons a)
  then have "rev (remdups (rev (concat (map (map fst) (map (\<lambda>(i, d). dict_set ''id'' (VStr i) d) ds))))) \<noteq> []"
    by simp
  then show ?thesis by (simp add: empty_frame_def DataFrame_def Cons)
qed

lemma generar_fetched:
  assumes "stream e ''campana'' (strip_char (CHR 0x22) cid) = Inr cs"
    and "stream e ''estacion'' (strip_char (CHR 0x22) cid) = Inr ss"
    and "stream e ''registro'' (strip_char (CHR 0x22) cid) = Inr rs"
  shows "generar_excel_fauna_like e cid =
     export_frames e cid
       (DataFrame (map (\<lambda>(i, d). dict_set ''id'' (VStr i) d) cs))
       (DataFrame (map (\<lambda>(i, d). dict_set ''id'' (VStr i) d) ss))
       (DataFrame (map (\<lambda>(i, d). dict_set ''id'' (VStr i) d) rs))"
  by (simp add: generar_excel_fauna_like_def fetch_by_campana_cases assms bind_exc_def)

lemma generar_http:
  assumes "generar_excel_fauna_like e cid = Inl (HTTPException s d)"
  shows "(s = 404 \<and> d = not_found_detail
            \<and> stream e ''campana'' (strip_char (CHR 0x22) cid) = Inr [])
       \<or> (s = 500 \<and> d = template_missing_detail \<and> \<not> template_exists e)"
proof -
  from assms obtain cs ss rs where
    f: "stream e ''campana'' (strip_char (CHR 0x22) cid) = Inr cs"
       "stream e ''estacion'' (strip_char (CHR 0x22) cid) = Inr ss"
       "stream e ''registro'' (strip_char (CHR 0x22) cid) = Inr rs"
    by (auto simp: generar_excel_fauna_like_def fetch_by_campana_cases bind_exc_def
        split: sum.splits)
  from assms have "export_frames e cid
       (DataFrame (map (\<lambda>(i, d). dict_set ''id'' (VStr i) d) cs))
       (DataFrame (map (\<lambda>(i, d). dict_set ''id'' (VStr i) d) ss))
       (DataFrame (map (\<lambda>(i, d). dict_set ''id'' (VStr i) d) rs)) = Inl (HTTPException s d)"
    by (simp add: generar_fetched [OF f])
  from export_frames_http [OF this] f(1) show ?thesis by (auto simp: DataFrame_empty)
qed

lemma takeWhile_until:
  "\<forall>x \<in> set xs. P x \<Longrightarrow> \<not> P y \<Longrightarrow> takeWhile P (xs @ y # ys) = xs"
  by (induction xs) auto

lemma path_name_dir:
  assumes "CHR ''/'' \<notin> set name"
  shows "path_name (''/tmp/downloads/'' @ name) = name"
proof -
  have r: "rev (''/tmp/downloads/'' @ name) = rev name @ CHR ''/'' # rev ''/tmp/downloads''"
    by simp
  have "takeWhile (\<lambda>c. c \<noteq> CHR ''/'') (rev name @ CHR ''/'' # rev ''/tmp/downloads'') = rev name"
    by (rule takeWhile_until) (use assms in auto)
  then show ?thesis unfolding path_name_def r by simp
qed

lemma out_name_no_slash:
  "\<not> w (CHR ''/'') \<Longrightarrow> CHR ''/'' \<notin> set u \<Longrightarrow> CHR ''/'' \<notin> set (out_name w cid u)"
  using safe_filename_no_slash [of w cid] by (auto simp: out_name_def dest: in_set_takeD)

lemma excel_ok_simps: "excel_ok VNone" "excel_ok VNaN" "excel_ok (VStr s)" "excel_ok (VInt n)"
  by (simp_all add: excel_ok_def)

lemma camp_get_ok:
  assumes "excel_ok (at_col camp ''name'')" "excel_ok (at_col camp ''ncampana'')"
  shows "excel_ok (camp_get cols camp (''Nombre campa'' @ [ntilde] @ ''a''))"
    and "excel_ok (camp_get cols camp (''N'' @ [CHR 0xFA] @ ''mero de campa'' @ [ntilde] @ ''a''))"
  using assms by (simp_all add: camp_get_def CAMPANA_MAP_def excel_ok_simps)

lemma campana_row_ok:
  assumes "excel_ok (at_col camp ''name'')" "excel_ok (at_col camp ''ncampana'')"
  shows "excel_ok (at_col (campana_row to_dt cols camp) name)"
proof -
  obtain a b c where s: "ymd (to_dt (camp_get cols camp ''Fecha inicio'')) = (a, b, c)"
      and sa: "excel_ok a" "excel_ok b" "excel_ok c"
    by (cases "to_dt (camp_get cols camp ''Fecha inicio'')") (auto simp: ymd_def excel_ok_simps)
  obtain a' b' c' where f: "ymd (to_dt (camp_get cols camp (''Fecha t'' @ [eacute] @ ''rmino''))) = (a', b', c')"
      and fa: "excel_ok a'" "excel_ok b'" "excel_ok c'"
    by (cases "to_dt (camp_get cols camp (''Fecha t'' @ [eacute] @ ''rmino''))")
       (auto simp: ymd_def excel_ok_simps)
  from s f have "campana_row to_dt cols camp =
      [(ID_Campana, VInt 1),
       (''Nombre campa'' @ [ntilde] @ ''a'', camp_get cols camp (''Nombre campa'' @ [ntilde] @ ''a'')),
       (''N'' @ [CHR 0xFA] @ ''mero de campa'' @ [ntilde] @ ''a'',
          camp_get cols camp (''N'' @ [CHR 0xFA] @ ''mero de campa'' @ [ntilde] @ ''a'')),
       (''A'' @ [ntilde] @ ''o inicio'', a),
       (''Mes inicio'', b),
       (''D'' @ [iacute] @ ''a inicio'', c),
       (''A'' @ [ntilde] @ ''o t'' @ [eacute] @ ''rmino'', a'),
       (''Mes t'' @ [eacute] @ ''rmino'', b'),
       (''D'' @ [iacute] @ ''a t'' @ [eacute] @ ''rmino'', c'),
       (''Objetivo de la campa'' @ [ntilde] @ ''a'', VNone),
       (''Comentarios adicionales'', VNone)]"
    by (simp add: campana_row_def Let_def)
  then show ?thesis
    using sa fa camp_get_ok [OF assms, of cols]
    by (simp add: at_col_def excel_ok_simps)
qed

lemma campana_row_id: "at_col (campana_row to_dt cols camp) ID_Campana = VInt 1"
  by (simp add: campana_row_def Let_def split_def at_col_def)

lemma join_replica_no_rows:
  assumes "rows dr = []"
  shows "fst (join_replica rdr [] dr) = []" and "registro_rows (snd (join_replica rdr [] dr)) = []"
proof -
  show "fst (join_replica rdr [] dr) = []"
    by (simp add: join_replica_def Let_def astype_str_def)
  have "length (registro_rows (snd (join_replica rdr [] dr))) = 0"
    unfolding length_join_rows by (simp add: assms)
  then show "registro_rows (snd (join_replica rdr [] dr)) = []" by simp
qed

lemma mapper_empty:
  assumes "rows dc = camp # rest" "rows de = []" "rows dr = []"
  shows "template_mapper e dc de dr =
     Inr \<lparr>df_campana_plantilla = [campana_row (to_datetime e) (columns dc) camp],
          df_estacion_plantilla = [], df_registro_plantilla = []\<rparr>"
proof -
  have ep: "estacion_pass de = Inr []"
    by (simp add: estacion_pass_def estacion_rows_def assms loc_assign_def loc_ok_def)
  have nr: "numero_replica [] = []" by (simp add: numero_replica_def)
  have rp: "registro_pass (snd (join_replica (render e) [] dr)) = Inr []"
    by (simp add: registro_pass_def join_replica_no_rows [OF assms(3)] loc_assign_def loc_ok_def)
  show ?thesis
    by (simp add: template_mapper_def assms(1) bind_exc_def ep nr rp split_def
        join_replica_no_rows [OF assms(3)])
qed

lemma export_empty_collections:
  assumes ne: "\<not> empty_frame dc" and c: "rows dc = camp # rest"
    and se: "rows de = []" and sr: "rows dr = []" and tp: "template_exists e"
    and ok: "excel_ok (at_col camp ''name'')" "excel_ok (at_col camp ''ncampana'')"
  shows "\<exists>wb. export_frames e cid dc de dr
           = Inr (''/tmp/downloads/'' @ out_name (is_word e) cid (uuid4_hex e), wb)
         \<and> (\<forall>r c. 2 \<le> r \<longrightarrow> map_of (EstacionReplica wb) (r, c) = None)
         \<and> (\<forall>r c. 3 \<le> r \<longrightarrow> map_of (Ocurrencia wb) (r, c) = None)
         \<and> (\<forall>r c. r < 2 \<longrightarrow> map_of (EstacionReplica wb) (r, c) = map_of (EstacionReplica (template e)) (r, c))
         \<and> (\<forall>r c. r < 3 \<longrightarrow> map_of (Ocurrencia wb) (r, c) = map_of (Ocurrencia (template e)) (r, c))
         \<and> map_of (Campana wb) (3, 1) = Some (VInt 1)"
proof -
  let ?t = "\<lparr>df_campana_plantilla = [campana_row (to_datetime e) (columns dc) camp],
          df_estacion_plantilla = [], df_registro_plantilla = []\<rparr>"
  have "\<exists>wb. write_workbook (render e) (template e) ?t = Inr wb"
    by (rule write_workbook_ok) (simp_all add: campana_row_ok [OF ok])
  then obtain wb where w: "write_workbook (render e) (template e) ?t = Inr wb" by blast
  have ex: "export_frames e cid dc de dr
      = Inr (''/tmp/downloads/'' @ out_name (is_word e) cid (uuid4_hex e), wb)"
    by (simp add: export_frames_def ne mapper_empty [OF c se sr] bind_exc_def tp w)
  note ws = cleared_sheet_after_write [OF write_workbook_Inr(2) [OF w] clear_estacion_lookup
      numeros_estacion_distinct]
  note wo = cleared_sheet_after_write [OF write_workbook_Inr(3) [OF w] clear_ocurrencia_lookup
      registro_colmap_distinct]
  have m: "(ID_Campana, 1) \<in> set numeros_campana" by (simp add: numeros_campana_def)
  from write_table_cell [OF write_workbook_Inr(1) [OF w] numeros_campana_distinct _ m, of 0]
  have c1: "map_of (Campana wb) (3, 1) = Some (VInt 1)"
    by (simp add: campana_row_id cell_after_def)
  from ws have s1: "\<forall>r c. 2 \<le> r \<longrightarrow> map_of (EstacionReplica wb) (r, c) = None"
    and s2: "\<forall>r c. r < 2 \<longrightarrow> map_of (EstacionReplica wb) (r, c) = map_of (EstacionReplica (template e)) (r, c)"
    by simp_all
  from wo have o1: "\<forall>r c. 3 \<le> r \<longrightarrow> map_of (Ocurrencia wb) (r, c) = None"
    and o2: "\<forall>r c. r < 3 \<longrightarrow> map_of (Ocurrencia wb) (r, c) = map_of (Ocurrencia (template e)) (r, c)"
    by simp_all
  from ex s1 o1 s2 o2 c1 show ?thesis by blast
qed

lemma export_no_template:
  assumes "\<not> empty_frame dc" "rows dc = camp # rest" "rows de = []" "rows dr = []"
    and "\<not> template_exists e"
  shows "export_frames e cid dc de dr = Inl (HTTPException 500 template_missing_detail)"
  by (simp add: export_frames_def assms(1,5) mapper_empty [OF assms(2,3,4)] bind_exc_def)



text \<open>
  C8. At the endpoint an \<^verbatim>\<open>HTTPException\<close> of the export passes unchanged, and it is
  either the 404 of a campaign without documents or the 500 that names the missing
  template; any other exception, a failing fetch among them, becomes status 500 with the
  exception's message after \<^verbatim>\<open>Error generando Excel: \<close>; a saved file becomes the JSON
  object whose \<^verbatim>\<open>download_url\<close> is the request's base URL, \<^verbatim>\<open>download/\<close> and the
  file's name.
\<close>

theorem export_error_propagation:
  "(generar_excel_fauna_like e cid = Inl (HTTPException s d) \<longrightarrow>
      export_excel e base cid = Inl (s, d)
      \<and> ((s = 404 \<and> d = not_found_detail
            \<and> stream e ''campana'' (strip_char (CHR 0x22) cid) = Inr [])
         \<or> (s = 500 \<and> d = template_missing_detail \<and> \<not> template_exists e)))
   \<and> (generar_excel_fauna_like e cid = Inl (Exception msg) \<longrightarrow>
        export_excel e base cid = Inl (500, ''Error generando Excel: '' @ msg))
   \<and> (stream e ''campana'' (strip_char (CHR 0x22) cid) = Inl msg \<longrightarrow>
        export_excel e base cid = Inl (500, ''Error generando Excel: '' @ msg))
   \<and> (generar_excel_fauna_like e cid = Inr (p, wb) \<longrightarrow>
        export_excel e base cid = Inr [(''download_url'', base @ ''download/'' @ path_name p)]
        \<and> (\<not> is_word e (CHR ''/'') \<and> CHR ''/'' \<notin> set (uuid4_hex e) \<longrightarrow>
             path_name p = out_name (is_word e) cid (uuid4_hex e)))"
proof (intro conjI impI)
  assume g: "generar_excel_fauna_like e cid = Inl (HTTPException s d)"
  then show "export_excel e base cid = Inl (s, d)" by (simp add: export_excel_def)
  from generar_http [OF g]
  show "(s = 404 \<and> d = not_found_detail
            \<and> stream e ''campana'' (strip_char (CHR 0x22) cid) = Inr [])
         \<or> (s = 500 \<and> d = template_missing_detail \<and> \<not> template_exists e)" .
next
  assume "generar_excel_fauna_like e cid = Inl (Exception msg)"
  then show "export_excel e base cid = Inl (500, ''Error generando Excel: '' @ msg)"
    by (simp add: export_excel_def)
next
  assume "stream e ''campana'' (strip_char (CHR 0x22) cid) = Inl msg"
  then have "generar_excel_fauna_like e cid = Inl (Exception msg)"
    by (simp add: generar_excel_fauna_like_def fetch_by_campana_cases bind_exc_def)
  then show "export_excel e base cid = Inl (500, ''Error generando Excel: '' @ msg)"
    by (simp add: export_excel_def)
next
  assume g: "generar_excel_fauna_like e cid = Inr (p, wb)"
  then show "export_excel e base cid = Inr [(''download_url'', base @ ''download/'' @ path_name p)]"
    by (simp add: export_excel_def url_for_download_def)
  assume "\<not> is_word e (CHR ''/'') \<and> CHR ''/'' \<notin> set (uuid4_hex e)"
  then have "CHR ''/'' \<notin> set (out_name (is_word e) cid (uuid4_hex e))"
    by (simp add: out_name_no_slash)
  from path_name_dir [OF this] generar_path [OF g]
  show "path_name p = out_name (is_word e) cid (uuid4_hex e)" by simp
qed

theorem export_error_propagation_witness:
  "export_excel (example_env one_campaign True) ''https://api.example/'' ''c1''
     = Inr [(''download_url'', ''https://api.example/download/Flora_c1_3f2a9c.xlsx'')]
   \<and> export_excel (example_env one_campaign True) ''https://api.example/'' ''zz''
     = Inl (404, not_found_detail)
   \<and> export_excel (example_env one_campaign False) ''https://api.example/'' ''c1''
     = Inl (500, template_missing_detail)
   \<and> export_excel (example_env store_down True) ''https://api.example/'' ''c1''
     = Inl (500, ''Error generando Excel: connection lost'')"
proof -
  let ?add = "\<lambda>(i, d). dict_set ''id'' (VStr i) d"
  let ?cs = "[(''doc1'', [(''campanaID'', VStr ''c1''), (''name'', VStr ''Primavera'')])]"
  let ?base = "''https://api.example/''"
  have q: "strip_char (CHR 0x22) ''c1'' = ''c1''" "strip_char (CHR 0x22) ''zz'' = ''zz''"
    by (simp_all add: strip_char_def)
  have ne: "\<not> empty_frame (DataFrame (map ?add ?cs))" using DataFrame_empty [of ?cs] by blast
  have rc: "rows (DataFrame (map ?add ?cs))
      = [dict_set ''id'' (VStr ''doc1'') [(''campanaID'', VStr ''c1''), (''name'', VStr ''Primavera'')]]"
    by (simp add: DataFrame_def)
  have re: "rows (DataFrame (map ?add [])) = []" by (simp add: DataFrame_def)
  have okc: "excel_ok (at_col (dict_set ''id'' (VStr ''doc1'')
        [(''campanaID'', VStr ''c1''), (''name'', VStr ''Primavera'')]) ''name'')"
      "excel_ok (at_col (dict_set ''id'' (VStr ''doc1'')
        [(''campanaID'', VStr ''c1''), (''name'', VStr ''Primavera'')]) ''ncampana'')"
    by (simp_all add: at_col_def excel_ok_def)
  have fetched: "\<And>b. generar_excel_fauna_like (example_env one_campaign b) ''c1''
      = export_frames (example_env one_campaign b) ''c1''
          (DataFrame (map ?add ?cs)) (DataFrame (map ?add [])) (DataFrame (map ?add []))"
    by (rule generar_fetched) (simp_all add: q example_env_def one_campaign_def)

  \<comment> \<open>success\<close>
  have tp: "template_exists (example_env one_campaign True)" by (simp add: example_env_def)
  from export_empty_collections [OF ne rc re re tp okc, of "''c1''"]
  obtain wb where "export_frames (example_env one_campaign True) ''c1''
      (DataFrame (map ?add ?cs)) (DataFrame (map ?add [])) (DataFrame (map ?add []))
      = Inr (''/tmp/downloads/'' @ out_name (is_word (example_env one_campaign True)) ''c1''
               (uuid4_hex (example_env one_campaign True)), wb)"
    by blast
  then have g1: "generar_excel_fauna_like (example_env one_campaign True) ''c1''
      = Inr (''/tmp/downloads/'' @ out_name (is_word (example_env one_campaign True)) ''c1''
               (uuid4_hex (example_env one_campaign True)), wb)"
    by (simp only: fetched)
  have noslash: "\<not> is_word (example_env one_campaign True) (CHR ''/'')
      \<and> CHR ''/'' \<notin> set (uuid4_hex (example_env one_campaign True))"
    by (simp add: example_env_def ascii_word_def)
  have nm: "out_name (is_word (example_env one_campaign True)) ''c1''
      (uuid4_hex (example_env one_campaign True)) = ''Flora_c1_3f2a9c.xlsx''"
    by (simp add: example_env_def out_name_def safe_filename_def strip_char_def ascii_word_def)
  from export_error_propagation [of "example_env one_campaign True" "''c1''" _ _ ?base _
      "''/tmp/downloads/'' @ out_name (is_word (example_env one_campaign True)) ''c1''
               (uuid4_hex (example_env one_campaign True))" wb]
    g1 noslash
  have a: "export_excel (example_env one_campaign True) ?base ''c1''
      = Inr [(''download_url'', ?base @ ''download/'' @ out_name (is_word (example_env one_campaign True))
          ''c1'' (uuid4_hex (example_env one_campaign True)))]"
    by simp
  have A: "export_excel (example_env one_campaign True) ?base ''c1''
     = Inr [(''download_url'', ''https://api.example/download/Flora_c1_3f2a9c.xlsx'')]"
    unfolding a nm by simp

  \<comment> \<open>no campaign\<close>
  have "generar_excel_fauna_like (example_env one_campaign True) ''zz''
      = export_frames (example_env one_campaign True) ''zz''
          (DataFrame (map ?add [])) (DataFrame (map ?add [])) (DataFrame (map ?add []))"
    by (rule generar_fetched) (simp_all add: q example_env_def one_campaign_def)
  then have g2: "generar_excel_fauna_like (example_env one_campaign True) ''zz''
      = Inl (HTTPException 404 not_found_detail)"
    by (simp add: export_frames_def empty_frame_def DataFrame_def)
  from export_error_propagation [of "example_env one_campaign True" "''zz''" 404 not_found_detail ?base] g2
  have B: "export_excel (example_env one_campaign True) ?base ''zz'' = Inl (404, not_found_detail)"
    by blast

  \<comment> \<open>no template\<close>
  have te: "\<not> template_exists (example_env one_campaign False)" by (simp add: example_env_def)
  have g3: "generar_excel_fauna_like (example_env one_campaign False) ''c1''
      = Inl (HTTPException 500 template_missing_detail)"
    unfolding fetched by (rule export_no_template [OF ne rc re re te])
  from export_error_propagation [of "example_env one_campaign False" "''c1''" 500
      template_missing_detail ?base] g3
  have C: "export_excel (example_env one_campaign False) ?base ''c1''
      = Inl (500, template_missing_detail)"
    by blast

  \<comment> \<open>the store fails\<close>
  have g4: "generar_excel_fauna_like (example_env store_down True) ''c1''
      = Inl (Exception ''connection lost'')"
    by (simp add: generar_excel_fauna_like_def fetch_by_campana_cases bind_exc_def
        example_env_def store_down_def)
  from export_error_propagation [of "example_env store_down True" "''c1''" _ _ ?base
      "''connection lost''"] g4
  have D: "export_excel (example_env store_down True) ?base ''c1''
      = Inl (500, ''Error generando Excel: connection lost'')"
    by simp
  from A B C D show ?thesis by blast
qed


subsection \<open>The rows of the Occurrence sheet after the join\<close>










end
